theory Spec2Isabelle
  imports Complex_Main
begin

section \<open>Data model\<close>

text \<open>
  The three trading systems of the repository
  (\<^verbatim>\<open>comprehensive_trading_system_demo.py\<close>, \<^verbatim>\<open>enhanced_trading_system_demo.py\<close>,
  \<^verbatim>\<open>realistic_quantum_trading_system.py\<close>) declare the same dataclasses. They are modelled
  once, as records.

  Numbers. A \<^verbatim>\<open>Decimal\<close> is modelled by the rational it denotes, and every arithmetic
  operation on \<^verbatim>\<open>Decimal\<close> values rounds its exact result to the 28 significant digits of
  the default context, ties to even (\<open>dec_round\<close> below); the exponent limits of the
  context, infinities and NaN are not part of the model. Python's \<^verbatim>\<open>float\<close> values
  (confidence, volatility, drawdown, win rate) are modelled as the rationals they denote,
  with exact arithmetic: the binary rounding of float operations is not part of the model,
  and \<^verbatim>\<open>Decimal(str(x))\<close> and \<^verbatim>\<open>float(d)\<close> are the identity. Python's \<^verbatim>\<open>int\<close> is
  \<^typ>\<open>int\<close>.

  Randomness and the clock are inputs: every \<^verbatim>\<open>random.uniform\<close> draw and every clock read
  of a function is a parameter of its model.
\<close>

type_synonym decimal = rat
type_synonym pyfloat = rat

text \<open>A \<^verbatim>\<open>datetime\<close> is a number of seconds; \<^verbatim>\<open>.date()\<close> is its day.\<close>

type_synonym datetime = nat

definition date_of :: "datetime \<Rightarrow> nat" where
  "date_of dt = dt div 86400"

datatype error = TypeError | ZeroDivisionError | DecimalDivisionByZero | DecimalInvalidOperation

subsection \<open>Decimal arithmetic\<close>

text \<open>
  \<open>ilog10 n\<close> is the number of decimal digits of \<open>n\<close> less one, \<open>pow10 e\<close> is \<open>10\<^sup>e\<close> for an
  integer \<open>e\<close>, and \<open>adjusted x\<close> is the adjusted exponent of a nonzero \<open>x\<close>, the \<open>k\<close> with
  \<open>10\<^sup>k \<le> \<bar>x\<bar> < 10\<^sup>k\<^sup>+\<^sup>1\<close>.
\<close>

function ilog10 :: "nat \<Rightarrow> nat" where
  "ilog10 n = (if n < 10 then 0 else Suc (ilog10 (n div 10)))"
  by pat_completeness auto
termination
  by (relation "measure id") auto

declare ilog10.simps [simp del]

definition pow10 :: "int \<Rightarrow> rat" where
  "pow10 e = (if 0 \<le> e then 10 ^ nat e else 1 / 10 ^ nat (- e))"

definition adjusted :: "rat \<Rightarrow> int" where
  "adjusted x =
     (let k0 = (if 1 \<le> \<bar>x\<bar> then int (ilog10 (nat \<lfloor>\<bar>x\<bar>\<rfloor>))
                else - 1 - int (ilog10 (nat \<lfloor>1 / \<bar>x\<bar>\<rfloor>)))
      in if pow10 (k0 + 1) \<le> \<bar>x\<bar> then k0 + 1 else k0)"

definition round_half_even :: "rat \<Rightarrow> int" where
  "round_half_even y =
     (let f = \<lfloor>y\<rfloor>; r = y - of_int f
      in if r < 1 / 2 then f else if 1 / 2 < r then f + 1 else if even f then f else f + 1)"

text \<open>
  The context rounding (\<^verbatim>\<open>prec = 28\<close>, \<^verbatim>\<open>ROUND_HALF_EVEN\<close>): the coefficient of the result
  is the exact value scaled to 28 digits and rounded to an integer.
\<close>

definition dec_round :: "rat \<Rightarrow> decimal" where
  "dec_round x =
     (if x = 0 then 0
      else (let e = adjusted x - 27
            in sgn x * (of_int (round_half_even (\<bar>x\<bar> / pow10 e)) * pow10 e)))"

text \<open>
  The operations \<^verbatim>\<open>+\<close>, \<^verbatim>\<open>-\<close>, \<^verbatim>\<open>*\<close>, unary \<^verbatim>\<open>-\<close> and \<^verbatim>\<open>abs\<close> on \<^verbatim>\<open>Decimal\<close> values (an
  \<^verbatim>\<open>int\<close> operand is converted exactly), and \<^verbatim>\<open>sum(xs, Decimal('0'))\<close>, which adds from
  the left. Comparisons and \<^verbatim>\<open>min\<close> are exact.
\<close>

definition dec_add :: "decimal \<Rightarrow> decimal \<Rightarrow> decimal" where
  "dec_add a b = dec_round (a + b)"

definition dec_sub :: "decimal \<Rightarrow> decimal \<Rightarrow> decimal" where
  "dec_sub a b = dec_round (a - b)"

definition dec_mul :: "decimal \<Rightarrow> decimal \<Rightarrow> decimal" where
  "dec_mul a b = dec_round (a * b)"

definition dec_neg :: "decimal \<Rightarrow> decimal" where
  "dec_neg a = dec_round (- a)"

definition dec_abs :: "decimal \<Rightarrow> decimal" where
  "dec_abs a = dec_round \<bar>a\<bar>"

definition dec_sum :: "decimal list \<Rightarrow> decimal" where
  "dec_sum xs = foldl dec_add 0 xs"

text \<open>
  \<^verbatim>\<open>a / b\<close> on \<^verbatim>\<open>Decimal\<close> values: a zero divisor raises \<^verbatim>\<open>InvalidOperation\<close> for
  \<open>0 / 0\<close> and \<^verbatim>\<open>DivisionByZero\<close> otherwise.
\<close>

definition decimal_div :: "decimal \<Rightarrow> decimal \<Rightarrow> error + decimal" where
  "decimal_div a b =
     (if b = 0 then (if a = 0 then Inl DecimalInvalidOperation else Inl DecimalDivisionByZero)
      else Inr (dec_round (a / b)))"

record system_config =
  total_capital :: decimal
  min_profit_per_trade :: decimal
  target_trades_per_day :: int
  target_win_rate :: pyfloat
  max_leverage :: int
  min_leverage :: int
  min_asset_count :: int
  max_drawdown :: pyfloat
  stop_loss_pct :: pyfloat
  take_profit_usdt :: decimal

text \<open>\<^verbatim>\<open>SystemConfig()\<close> with the defaults of the dataclass, the same in the three files.\<close>

definition default_config :: system_config where
  "default_config =
     \<lparr> total_capital = 12, min_profit_per_trade = 6 / 10, target_trades_per_day = 750,
       target_win_rate = 875 / 1000, max_leverage = 100, min_leverage = 50,
       min_asset_count = 300, max_drawdown = 9 / 1000, stop_loss_pct = 25 / 10000,
       take_profit_usdt = 6 / 10 \<rparr>"

text \<open>
  The prediction dictionary attached to an asset; the trading core reads the keys
  \<^verbatim>\<open>"confidence"\<close> and \<^verbatim>\<open>"direction"\<close> only.
\<close>

record quantum_prediction_dict =
  pred_direction :: string
  pred_confidence :: pyfloat

text \<open>
  \<^verbatim>\<open>TradingAsset\<close>. The fields \<^verbatim>\<open>symbol\<close> and \<^verbatim>\<open>max_leverage\<close> carry the prefix
  \<open>asset_\<close>, since a trade has a \<^verbatim>\<open>symbol\<close> and the configuration a \<^verbatim>\<open>max_leverage\<close>.
\<close>

record trading_asset =
  asset_symbol :: string
  current_price :: decimal
  daily_volume :: decimal
  volatility_24h :: pyfloat
  min_order_size :: decimal
  asset_max_leverage :: int
  confidence_score :: pyfloat
  quantum_prediction :: "quantum_prediction_dict option"
  last_updated :: "datetime option"

record trade_result =
  trade_id :: string
  symbol :: string
  side :: string
  quantity :: decimal
  price :: decimal
  leverage :: int
  order_id :: string
  executed_at :: datetime
  expected_profit :: decimal
  actual_profit :: "decimal option"
  status :: string

record performance_metrics_rec =
  total_trades :: int
  successful_trades :: int
  failed_trades :: int
  total_profit :: decimal
  total_loss :: decimal
  win_rate :: pyfloat
  average_profit_per_trade :: decimal
  current_drawdown :: pyfloat
  max_drawdown_reached :: pyfloat
  trades_today :: int
  daily_target_progress :: pyfloat

definition PerformanceMetrics :: performance_metrics_rec where
  "PerformanceMetrics =
     \<lparr> total_trades = 0, successful_trades = 0, failed_trades = 0, total_profit = 0,
       total_loss = 0, win_rate = 0, average_profit_per_trade = 0, current_drawdown = 0,
       max_drawdown_reached = 0, trades_today = 0, daily_target_progress = 0 \<rparr>"

subsection \<open>Dictionaries\<close>

text \<open>
  A Python \<^verbatim>\<open>dict\<close> keeps its keys in insertion order, and the risk monitor iterates over
  \<^verbatim>\<open>active_trades.items()\<close>; a dictionary is an association list. \<open>dict_set\<close> is
  \<^verbatim>\<open>d[k] = v\<close> (an existing key keeps its place), \<open>dict_pop\<close> is \<^verbatim>\<open>d.pop(k)\<close> for a key
  that is present, \<open>dict_get\<close> the lookup, \<open>dict_values\<close> is \<^verbatim>\<open>d.values()\<close>.
\<close>

type_synonym ('k, 'v) dict = "('k \<times> 'v) list"

definition dict_get :: "('k, 'v) dict \<Rightarrow> 'k \<Rightarrow> 'v option" where
  "dict_get d k = map_of d k"

fun dict_set :: "('k, 'v) dict \<Rightarrow> 'k \<Rightarrow> 'v \<Rightarrow> ('k, 'v) dict" where
  "dict_set [] k v = [(k, v)]"
| "dict_set ((k', v') # d) k v =
     (if k' = k then (k, v) # d else (k', v') # dict_set d k v)"

fun dict_pop :: "('k, 'v) dict \<Rightarrow> 'k \<Rightarrow> ('k, 'v) dict" where
  "dict_pop [] k = []"
| "dict_pop ((k', v') # d) k = (if k' = k then d else (k', v') # dict_pop d k)"

definition dict_keys :: "('k, 'v) dict \<Rightarrow> 'k list" where
  "dict_keys d = map fst d"

definition dict_values :: "('k, 'v) dict \<Rightarrow> 'v list" where
  "dict_values d = map snd d"

text \<open>A well-formed dictionary has each key once.\<close>

definition is_dict :: "('k, 'v) dict \<Rightarrow> bool" where
  "is_dict d = distinct (dict_keys d)"

subsection \<open>The system state\<close>

text \<open>
  The attributes set by \<^verbatim>\<open>__init__\<close>. The enhanced and the realistic system add a
  \<^verbatim>\<open>trade_counter\<close>; they are the record extension \<open>counted_system\<close>, and the functions
  that are the same in the three files are defined on any extension of \<open>system\<close>.
\<close>

record system =
  config :: system_config
  available_capital :: decimal
  allocated_capital :: "(string, decimal) dict"
  scanned_assets :: "trading_asset list"
  filtered_assets :: "trading_asset list"
  active_trades :: "(string, trade_result) dict"
  trade_history :: "trade_result list"
  performance_metrics :: performance_metrics_rec
  running :: bool

record counted_system = system +
  trade_counter :: int

definition init_system :: system where
  "init_system =
     \<lparr> config = default_config, available_capital = total_capital default_config,
       allocated_capital = [], scanned_assets = [], filtered_assets = [],
       active_trades = [], trade_history = [], performance_metrics = PerformanceMetrics,
       running = False \<rparr>"

definition init_counted_system :: counted_system where
  "init_counted_system =
     \<lparr> config = default_config, available_capital = total_capital default_config,
       allocated_capital = [], scanned_assets = [], filtered_assets = [],
       active_trades = [], trade_history = [], performance_metrics = PerformanceMetrics,
       running = False, trade_counter = 0 \<rparr>"

section \<open>The capital ledger\<close>

text \<open>
  \<^verbatim>\<open>update_capital_allocation\<close> (the same in the three files, named
  \<^verbatim>\<open>update_realistic_capital_allocation\<close> in the third):
  \<^verbatim>\<open>
    trade_capital = trade.quantity * trade.price / trade.leverage
    self.available_capital -= trade_capital
    self.allocated_capital[trade.trade_id] = trade_capital
  \<close>
  The division by the integer zero raises before anything is written.
\<close>

definition update_capital_allocation ::
  "'a system_scheme \<Rightarrow> trade_result \<Rightarrow> error + 'a system_scheme" where
  "update_capital_allocation s trade =
     (case decimal_div (dec_mul (quantity trade) (price trade)) (of_int (leverage trade)) of
        Inl e \<Rightarrow> Inl e
      | Inr trade_capital \<Rightarrow>
          Inr (s\<lparr> available_capital := dec_sub (available_capital s) trade_capital,
                  allocated_capital := dict_set (allocated_capital s) (trade_id trade) trade_capital \<rparr>))"

text \<open>
  \<^verbatim>\<open>calculate_pnl\<close> (\<^verbatim>\<open>calculate_realistic_pnl\<close> in the third file):
  \<^verbatim>\<open>
    price_diff = (current_price - trade.price if trade.side == "Buy"
                  else trade.price - current_price)
    return price_diff * trade.quantity
  \<close>
\<close>

definition calculate_pnl :: "trade_result \<Rightarrow> decimal \<Rightarrow> decimal" where
  "calculate_pnl trade cur_price =
     (let price_diff = (if side trade = ''Buy'' then dec_sub cur_price (price trade)
                        else dec_sub (price trade) cur_price)
      in dec_mul price_diff (quantity trade))"

text \<open>
  \<^verbatim>\<open>close_trade\<close> (\<^verbatim>\<open>close_realistic_trade\<close> in the third file). The three files differ
  in the range of the random draw only; the parameter \<open>factor\<close> is the drawn
  \<^verbatim>\<open>Decimal\<close> by which the entry price is multiplied
  (\<^verbatim>\<open>Decimal(str(random.uniform(0.995, 1.005)))\<close> in the first file,
  \<^verbatim>\<open>Decimal(str(1 + price_change))\<close> in the other two).
  \<^verbatim>\<open>
    if trade_id in self.active_trades:
        trade = self.active_trades.pop(trade_id)
        current_price = trade.price * <factor>
        pnl = self.calculate_pnl(trade, current_price)
        trade.actual_profit = pnl
        trade.status = status
        if trade_id in self.allocated_capital:
            capital_returned = self.allocated_capital.pop(trade_id)
            self.available_capital += capital_returned + pnl
        self.trade_history.append(trade)
  \<close>
\<close>

definition closed_trade :: "trade_result \<Rightarrow> string \<Rightarrow> decimal \<Rightarrow> trade_result" where
  "closed_trade trade st factor =
     trade\<lparr> actual_profit := Some (calculate_pnl trade (dec_mul (price trade) factor)),
           status := st \<rparr>"

definition return_capital :: "'a system_scheme \<Rightarrow> string \<Rightarrow> decimal \<Rightarrow> 'a system_scheme" where
  "return_capital s tid pnl =
     (case dict_get (allocated_capital s) tid of
        None \<Rightarrow> s
      | Some capital_returned \<Rightarrow>
          s\<lparr> allocated_capital := dict_pop (allocated_capital s) tid,
             available_capital :=
               dec_add (available_capital s) (dec_add capital_returned pnl) \<rparr>)"

definition close_trade ::
  "'a system_scheme \<Rightarrow> string \<Rightarrow> string \<Rightarrow> decimal \<Rightarrow> 'a system_scheme" where
  "close_trade s tid st factor =
     (case dict_get (active_trades s) tid of
        None \<Rightarrow> s
      | Some trade0 \<Rightarrow>
          (let s1 = s\<lparr> active_trades := dict_pop (active_trades s) tid \<rparr>;
               current_price = dec_mul (price trade0) factor;
               pnl = calculate_pnl trade0 current_price;
               trade = trade0\<lparr> actual_profit := Some pnl, status := st \<rparr>;
               s2 = return_capital s1 tid pnl
           in s2\<lparr> trade_history := trade_history s2 @ [trade] \<rparr>))"

section \<open>Signal evaluation\<close>

text \<open>\<^verbatim>\<open>int(x)\<close> of a float truncates towards zero.\<close>

definition py_int :: "pyfloat \<Rightarrow> int" where
  "py_int x = (if 0 \<le> x then \<lfloor>x\<rfloor> else \<lceil>x\<rceil>)"

text \<open>\<^verbatim>\<open>a / b\<close> on floats or ints raises \<^verbatim>\<open>ZeroDivisionError\<close> for \<open>b = 0\<close>.\<close>

definition py_truediv :: "pyfloat \<Rightarrow> pyfloat \<Rightarrow> error + pyfloat" where
  "py_truediv a b = (if b = 0 then Inl ZeroDivisionError else Inr (a / b))"

text \<open>The dictionary returned by \<^verbatim>\<open>generate_trading_signal\<close>, its keys prefixed by \<open>sig_\<close>.\<close>

record signal =
  sig_should_trade :: bool
  sig_confidence :: pyfloat
  sig_direction :: string
  sig_leverage :: int
  sig_expected_profit :: decimal
  sig_risk_score :: pyfloat

text \<open>
  \<^verbatim>\<open>generate_trading_signal\<close> of \<^verbatim>\<open>comprehensive_trading_system_demo.py\<close>:
  \<^verbatim>\<open>
    prediction = asset.quantum_prediction
    confidence = prediction["confidence"]
    leverage = min(max(int(confidence * 100), self.config.min_leverage),
                   self.config.max_leverage)
    expected_movement = asset.volatility_24h * confidence * 0.5
    trade_capital = min(self.available_capital, Decimal('5'))
    position_size = trade_capital * leverage
    expected_profit = position_size * Decimal(str(expected_movement))
    risk_score = (leverage / self.config.max_leverage +
                  asset.volatility_24h / 0.1) / 2
    should_trade = (confidence > 0.75 and
                    expected_profit >= self.config.min_profit_per_trade and
                    risk_score < 0.5 and
                    self.available_capital >= Decimal('5'))
  \<close>
  Subscripting the prediction \<^verbatim>\<open>None\<close> raises \<^verbatim>\<open>TypeError\<close>.
\<close>

definition generate_trading_signal :: "'a system_scheme \<Rightarrow> trading_asset \<Rightarrow> error + signal" where
  "generate_trading_signal s asset =
     (case quantum_prediction asset of
        None \<Rightarrow> Inl TypeError
      | Some prediction \<Rightarrow>
          (let confidence = pred_confidence prediction;
               lev = min (max (py_int (confidence * 100)) (min_leverage (config s)))
                         (max_leverage (config s));
               expected_movement = volatility_24h asset * confidence * (5 / 10);
               trade_capital = min (available_capital s) 5;
               position_size = dec_mul trade_capital (of_int lev);
               expected_prof = dec_mul position_size expected_movement
           in case py_truediv (of_int lev) (of_int (max_leverage (config s))) of
                Inl e \<Rightarrow> Inl e
              | Inr lev_ratio \<Rightarrow>
                  (let risk_score = (lev_ratio + volatility_24h asset / (1 / 10)) / 2;
                       should_trade = (confidence > 75 / 100 \<and>
                                       expected_prof \<ge> min_profit_per_trade (config s) \<and>
                                       risk_score < 5 / 10 \<and>
                                       available_capital s \<ge> 5)
                   in Inr \<lparr> sig_should_trade = should_trade, sig_confidence = confidence,
                            sig_direction = pred_direction prediction, sig_leverage = lev,
                            sig_expected_profit = expected_prof,
                            sig_risk_score = risk_score \<rparr>)))"

text \<open>
  \<^verbatim>\<open>generate_trading_signal\<close> of \<^verbatim>\<open>enhanced_trading_system_demo.py\<close>: the same with the
  gain \<open>80\<close>, the movement factor \<open>0.6\<close>, the capital cap \<open>4\<close> and the thresholds
  \<open>0.72\<close>, \<open>Decimal('0.4')\<close>, \<open>0.6\<close>, \<open>Decimal('3')\<close>.
\<close>

definition enh_generate_trading_signal ::
  "'a system_scheme \<Rightarrow> trading_asset \<Rightarrow> error + signal" where
  "enh_generate_trading_signal s asset =
     (case quantum_prediction asset of
        None \<Rightarrow> Inl TypeError
      | Some prediction \<Rightarrow>
          (let confidence = pred_confidence prediction;
               lev = min (max (py_int (confidence * 80)) (min_leverage (config s)))
                         (max_leverage (config s));
               expected_movement = volatility_24h asset * confidence * (6 / 10);
               trade_capital = min (available_capital s) 4;
               position_size = dec_mul trade_capital (of_int lev);
               expected_prof = dec_mul position_size expected_movement
           in case py_truediv (of_int lev) (of_int (max_leverage (config s))) of
                Inl e \<Rightarrow> Inl e
              | Inr lev_ratio \<Rightarrow>
                  (let risk_score = (lev_ratio + volatility_24h asset / (1 / 10)) / 2;
                       should_trade = (confidence > 72 / 100 \<and>
                                       expected_prof \<ge> 4 / 10 \<and>
                                       risk_score < 6 / 10 \<and>
                                       available_capital s \<ge> 3)
                   in Inr \<lparr> sig_should_trade = should_trade, sig_confidence = confidence,
                            sig_direction = pred_direction prediction, sig_leverage = lev,
                            sig_expected_profit = expected_prof,
                            sig_risk_score = risk_score \<rparr>)))"

section \<open>Trade execution\<close>

text \<open>
  The loop of \<^verbatim>\<open>select_best_trading_opportunity\<close>, the same in the files, over the signal
  generator \<open>gen\<close> of the file:
  \<^verbatim>\<open>
    for asset in <assets>:
        signal = await self.generate_trading_signal(asset)
        if signal["should_trade"]:
            score = (signal["confidence"] * float(signal["expected_profit"]) /
                     (1.0 + signal["risk_score"]))
            if score > best_score:
                best_score = score
                best_opportunity = (asset, signal)
    return best_opportunity
  \<close>
\<close>

fun select_best_loop ::
  "(trading_asset \<Rightarrow> error + signal) \<Rightarrow> trading_asset list \<Rightarrow>
   (trading_asset \<times> signal) option \<Rightarrow> pyfloat \<Rightarrow> error + (trading_asset \<times> signal) option" where
  "select_best_loop gen [] best_opportunity best_score = Inr best_opportunity"
| "select_best_loop gen (asset # rest) best_opportunity best_score =
     (case gen asset of
        Inl e \<Rightarrow> Inl e
      | Inr sg \<Rightarrow>
          if sig_should_trade sg then
            (case py_truediv (sig_confidence sg * sig_expected_profit sg) (1 + sig_risk_score sg) of
               Inl e \<Rightarrow> Inl e
             | Inr score \<Rightarrow>
                 if score > best_score then select_best_loop gen rest (Some (asset, sg)) score
                 else select_best_loop gen rest best_opportunity best_score)
          else select_best_loop gen rest best_opportunity best_score)"

text \<open>The first file checks \<^verbatim>\<open>self.filtered_assets[:20]\<close>, the second \<^verbatim>\<open>[:10]\<close>.\<close>

definition select_best_trading_opportunity ::
  "'a system_scheme \<Rightarrow> error + (trading_asset \<times> signal) option" where
  "select_best_trading_opportunity s =
     select_best_loop (generate_trading_signal s) (take 20 (filtered_assets s)) None 0"

definition enh_select_best_trading_opportunity ::
  "'a system_scheme \<Rightarrow> error + (trading_asset \<times> signal) option" where
  "enh_select_best_trading_opportunity s =
     select_best_loop (enh_generate_trading_signal s) (take 10 (filtered_assets s)) None 0"

text \<open>
  \<^verbatim>\<open>quantity.quantize(Decimal('0.0001'), rounding=ROUND_HALF_UP)\<close>: to four decimal places,
  a tie going away from zero; \<^verbatim>\<open>InvalidOperation\<close> is raised when the coefficient of the
  result would have more than 28 digits.
\<close>

definition quantize4 :: "decimal \<Rightarrow> error + decimal" where
  "quantize4 x =
     (let coefficient = \<lfloor>\<bar>x\<bar> * 10000 + 1 / 2\<rfloor>
      in if 10 ^ 28 \<le> coefficient then Inl DecimalInvalidOperation
         else Inr (sgn x * (of_int coefficient / 10000)))"

text \<open>
  What a trade execution reads from outside: the two clock reads rendered in the
  identifiers (\<^verbatim>\<open>int(time.time()*1000)\<close>, as decimal strings), the random suffix of the
  order identifier of the second file (\<^verbatim>\<open>random.randint(1000,9999)\<close>), and
  \<^verbatim>\<open>datetime.now()\<close>.
\<close>

record exec_env =
  trade_ms :: string
  order_ms :: string
  order_rand :: string
  exec_now :: datetime

text \<open>
  \<^verbatim>\<open>execute_trade\<close> of the first file:
  \<^verbatim>\<open>
    trade_id = f"trade-{int(time.time()*1000)}"
    trade_capital = min(self.available_capital, Decimal('5'))
    leverage = signal["leverage"]
    position_size = trade_capital * leverage
    quantity = position_size / asset.current_price
    order_id = f"demo-{asset.symbol}-{int(time.time()*1000)}"
    trade_result = TradeResult(trade_id=trade_id, symbol=asset.symbol,
        side="Buy" if signal["direction"] == "Long" else "Sell",
        quantity=quantity.quantize(Decimal('0.0001'), rounding=ROUND_HALF_UP),
        price=asset.current_price, leverage=leverage, order_id=order_id,
        executed_at=datetime.now(), expected_profit=signal["expected_profit"],
        status="Executed")
  \<close>
\<close>

definition execute_trade ::
  "'a system_scheme \<Rightarrow> trading_asset \<Rightarrow> signal \<Rightarrow> exec_env \<Rightarrow> error + trade_result" where
  "execute_trade s asset sg env =
     (let tid = ''trade-'' @ trade_ms env;
          trade_capital = min (available_capital s) 5;
          lev = sig_leverage sg;
          position_size = dec_mul trade_capital (of_int lev)
      in case decimal_div position_size (current_price asset) of
           Inl e \<Rightarrow> Inl e
         | Inr qty \<Rightarrow>
             (case quantize4 qty of
                Inl e \<Rightarrow> Inl e
              | Inr rounded_qty \<Rightarrow>
                  Inr \<lparr> trade_id = tid, symbol = asset_symbol asset,
                        side = (if sig_direction sg = ''Long'' then ''Buy'' else ''Sell''),
                        quantity = rounded_qty, price = current_price asset, leverage = lev,
                        order_id = ''demo-'' @ asset_symbol asset @ ''-'' @ order_ms env,
                        executed_at = exec_now env, expected_profit = sig_expected_profit sg,
                        actual_profit = None, status = ''Executed'' \<rparr>))"

text \<open>
  \<^verbatim>\<open>execute_trade\<close> of the second file: the capital cap is \<^verbatim>\<open>Decimal('4')\<close> and the order
  identifier is \<^verbatim>\<open>f"DEMO-{asset.symbol}-{int(time.time()*1000)}-{random.randint(1000,9999)}"\<close>.
\<close>

definition enh_execute_trade ::
  "'a system_scheme \<Rightarrow> trading_asset \<Rightarrow> signal \<Rightarrow> exec_env \<Rightarrow> error + trade_result" where
  "enh_execute_trade s asset sg env =
     (let tid = ''trade-'' @ trade_ms env;
          trade_capital = min (available_capital s) 4;
          lev = sig_leverage sg;
          position_size = dec_mul trade_capital (of_int lev)
      in case decimal_div position_size (current_price asset) of
           Inl e \<Rightarrow> Inl e
         | Inr qty \<Rightarrow>
             (case quantize4 qty of
                Inl e \<Rightarrow> Inl e
              | Inr rounded_qty \<Rightarrow>
                  Inr \<lparr> trade_id = tid, symbol = asset_symbol asset,
                        side = (if sig_direction sg = ''Long'' then ''Buy'' else ''Sell''),
                        quantity = rounded_qty, price = current_price asset, leverage = lev,
                        order_id = ''DEMO-'' @ asset_symbol asset @ ''-'' @ order_ms env @ ''-''
                                   @ order_rand env,
                        executed_at = exec_now env, expected_profit = sig_expected_profit sg,
                        actual_profit = None, status = ''Executed'' \<rparr>))"

text \<open>
  \<^verbatim>\<open>execute_trading_cycle\<close> of the first file. The result is the returned boolean or the
  exception raised, with the state the call leaves behind.
  \<^verbatim>\<open>
    if self.available_capital < Decimal('5'):
        return False
    if not self.filtered_assets:
        return False
    best_asset = await self.select_best_trading_opportunity()
    if best_asset:
        asset, signal = best_asset
        trade_result = await self.execute_trade(asset, signal)
        if trade_result:
            await self.update_capital_allocation(trade_result)
            self.active_trades[trade_result.trade_id] = trade_result
            await self.update_performance_metrics(trade_result)   # pass
            return True
    return False
  \<close>
\<close>

definition execute_trading_cycle ::
  "'a system_scheme \<Rightarrow> exec_env \<Rightarrow> (error + bool) \<times> 'a system_scheme" where
  "execute_trading_cycle s env =
     (if available_capital s < 5 then (Inr False, s)
      else if filtered_assets s = [] then (Inr False, s)
      else case select_best_trading_opportunity s of
             Inl e \<Rightarrow> (Inl e, s)
           | Inr None \<Rightarrow> (Inr False, s)
           | Inr (Some (asset, sg)) \<Rightarrow>
               (case execute_trade s asset sg env of
                  Inl e \<Rightarrow> (Inl e, s)
                | Inr trade_res \<Rightarrow>
                    (case update_capital_allocation s trade_res of
                       Inl e \<Rightarrow> (Inl e, s)
                     | Inr s1 \<Rightarrow>
                         (Inr True,
                          s1\<lparr> active_trades :=
                                dict_set (active_trades s1) (trade_id trade_res) trade_res \<rparr>))))"

text \<open>
  \<^verbatim>\<open>execute_trading_cycle\<close> of the second file: the floor is \<^verbatim>\<open>Decimal('3')\<close>, and
  \<^verbatim>\<open>self.trade_counter += 1\<close> runs before the ledger is updated.
\<close>

definition enh_execute_trading_cycle ::
  "counted_system \<Rightarrow> exec_env \<Rightarrow> (error + bool) \<times> counted_system" where
  "enh_execute_trading_cycle s env =
     (if available_capital s < 3 then (Inr False, s)
      else if filtered_assets s = [] then (Inr False, s)
      else case enh_select_best_trading_opportunity s of
             Inl e \<Rightarrow> (Inl e, s)
           | Inr None \<Rightarrow> (Inr False, s)
           | Inr (Some (asset, sg)) \<Rightarrow>
               (case enh_execute_trade s asset sg env of
                  Inl e \<Rightarrow> (Inl e, s)
                | Inr trade_res \<Rightarrow>
                    (let s0 = s\<lparr> trade_counter := trade_counter s + 1 \<rparr>
                     in case update_capital_allocation s0 trade_res of
                          Inl e \<Rightarrow> (Inl e, s0)
                        | Inr s1 \<Rightarrow>
                            (Inr True,
                             s1\<lparr> active_trades :=
                                   dict_set (active_trades s1) (trade_id trade_res) trade_res \<rparr>))))"

section \<open>Risk monitoring\<close>

text \<open>
  The closing loop shared by the risk monitors and the emergency stop:
  \<^verbatim>\<open>
    for trade_id, status in trades_to_close:
        await self.close_trade(trade_id, status)
  \<close>
  \<open>close_factor tid\<close> is the random price factor drawn inside \<^verbatim>\<open>close_trade\<close> for the
  trade \<open>tid\<close>.
\<close>

fun close_trades ::
  "'a system_scheme \<Rightarrow> (string \<times> string) list \<Rightarrow> (string \<Rightarrow> decimal) \<Rightarrow> 'a system_scheme" where
  "close_trades s [] close_factor = s"
| "close_trades s ((tid, st) # rest) close_factor =
     close_trades (close_trade s tid st (close_factor tid)) rest close_factor"

text \<open>
  \<^verbatim>\<open>emergency_stop\<close> (first file only):
  \<^verbatim>\<open>
    self.running = False
    for trade_id in list(self.active_trades.keys()):
        await self.close_trade(trade_id, "Cancelled")
  \<close>
\<close>

definition emergency_stop :: "'a system_scheme \<Rightarrow> (string \<Rightarrow> decimal) \<Rightarrow> 'a system_scheme" where
  "emergency_stop s close_factor =
     (let s1 = s\<lparr> running := False \<rparr>
      in close_trades s1 (map (\<lambda>tid. (tid, ''Cancelled'')) (dict_keys (active_trades s1)))
           close_factor)"

text \<open>
  The scan of \<^verbatim>\<open>monitor_risks\<close> of the first file over \<^verbatim>\<open>list(self.active_trades.items())\<close>;
  \<open>mon_factor tid\<close> is the draw \<^verbatim>\<open>Decimal(str(random.uniform(0.995, 1.005)))\<close> made for
  the trade \<open>tid\<close>:
  \<^verbatim>\<open>
    current_price = trade.price * Decimal(str(random.uniform(0.995, 1.005)))
    pnl = self.calculate_pnl(trade, current_price)
    if pnl < -trade.price * Decimal(str(self.config.stop_loss_pct)):
        trades_to_close.append((trade_id, "StopLoss"))
    elif pnl >= self.config.take_profit_usdt:
        trades_to_close.append((trade_id, "ProfitTaken"))
  \<close>
\<close>

fun trades_to_close ::
  "system_config \<Rightarrow> (string \<Rightarrow> decimal) \<Rightarrow> (string \<times> trade_result) list \<Rightarrow>
   (string \<times> string) list" where
  "trades_to_close cfg mon_factor [] = []"
| "trades_to_close cfg mon_factor ((tid, trade) # rest) =
     (let cur_price = dec_mul (price trade) (mon_factor tid);
          pnl = calculate_pnl trade cur_price
      in if pnl < dec_mul (dec_neg (price trade)) (stop_loss_pct cfg)
         then (tid, ''StopLoss'') # trades_to_close cfg mon_factor rest
         else if pnl \<ge> take_profit_usdt cfg
         then (tid, ''ProfitTaken'') # trades_to_close cfg mon_factor rest
         else trades_to_close cfg mon_factor rest)"

text \<open>
  \<^verbatim>\<open>monitor_risks\<close> of the first file:
  \<^verbatim>\<open>
    if self.performance_metrics.current_drawdown > self.config.max_drawdown:
        await self.emergency_stop()
        return
    trades_to_close = []
    for trade_id, trade in list(self.active_trades.items()): ...
    for trade_id, status in trades_to_close:
        await self.close_trade(trade_id, status)
  \<close>
\<close>

definition monitor_risks ::
  "'a system_scheme \<Rightarrow> (string \<Rightarrow> decimal) \<Rightarrow> (string \<Rightarrow> decimal) \<Rightarrow> 'a system_scheme" where
  "monitor_risks s mon_factor close_factor =
     (if current_drawdown (performance_metrics s) > max_drawdown (config s)
      then emergency_stop s close_factor
      else close_trades s (trades_to_close (config s) mon_factor (active_trades s)) close_factor)"

text \<open>
  The scan of \<^verbatim>\<open>monitor_risks\<close> of the second file; \<open>mon_factor tid\<close> is
  \<^verbatim>\<open>Decimal(str(1 + price_change))\<close> and \<open>rnd tid\<close> the draw \<^verbatim>\<open>random.random()\<close>:
  \<^verbatim>\<open>
    if pnl < -trade.price * Decimal(str(self.config.stop_loss_pct)):
        trades_to_close.append((trade_id, "StopLoss"))
    elif pnl >= Decimal('0.4'):  # Lowered from 0.6 to 0.4
        trades_to_close.append((trade_id, "ProfitTaken"))
    # Random close some trades for demo (simulate market conditions)
    elif random.random() < 0.05:  # 5% chance to close randomly
        status = "ProfitTaken" if pnl > 0 else "StopLoss"
        trades_to_close.append((trade_id, status))
  \<close>
\<close>

fun enh_trades_to_close ::
  "system_config \<Rightarrow> (string \<Rightarrow> decimal) \<Rightarrow> (string \<Rightarrow> pyfloat) \<Rightarrow>
   (string \<times> trade_result) list \<Rightarrow> (string \<times> string) list" where
  "enh_trades_to_close cfg mon_factor rnd [] = []"
| "enh_trades_to_close cfg mon_factor rnd ((tid, trade) # rest) =
     (let cur_price = dec_mul (price trade) (mon_factor tid);
          pnl = calculate_pnl trade cur_price
      in if pnl < dec_mul (dec_neg (price trade)) (stop_loss_pct cfg)
         then (tid, ''StopLoss'') # enh_trades_to_close cfg mon_factor rnd rest
         else if pnl \<ge> 4 / 10
         then (tid, ''ProfitTaken'') # enh_trades_to_close cfg mon_factor rnd rest
         else if rnd tid < 5 / 100
         then (tid, if pnl > 0 then ''ProfitTaken'' else ''StopLoss'')
              # enh_trades_to_close cfg mon_factor rnd rest
         else enh_trades_to_close cfg mon_factor rnd rest)"

text \<open>
  \<^verbatim>\<open>monitor_risks\<close> of the second file; on a drawdown above the limit it logs a warning
  and returns:
  \<^verbatim>\<open>
    if self.performance_metrics.current_drawdown > self.config.max_drawdown:
        logger.warning(...)
        return
  \<close>
\<close>

definition enh_monitor_risks ::
  "'a system_scheme \<Rightarrow> (string \<Rightarrow> decimal) \<Rightarrow> (string \<Rightarrow> pyfloat) \<Rightarrow> (string \<Rightarrow> decimal) \<Rightarrow>
   'a system_scheme" where
  "enh_monitor_risks s mon_factor rnd close_factor =
     (if current_drawdown (performance_metrics s) > max_drawdown (config s) then s
      else close_trades s (enh_trades_to_close (config s) mon_factor rnd (active_trades s))
             close_factor)"

text \<open>
  \<^verbatim>\<open>monitor_realistic_risks\<close> of the third file: as in the second, with the take-profit
  threshold \<^verbatim>\<open>Decimal('0.5')\<close> and the random close at \<^verbatim>\<open>random.random() < 0.08\<close>.
\<close>

fun realistic_trades_to_close ::
  "system_config \<Rightarrow> (string \<Rightarrow> decimal) \<Rightarrow> (string \<Rightarrow> pyfloat) \<Rightarrow>
   (string \<times> trade_result) list \<Rightarrow> (string \<times> string) list" where
  "realistic_trades_to_close cfg mon_factor rnd [] = []"
| "realistic_trades_to_close cfg mon_factor rnd ((tid, trade) # rest) =
     (let cur_price = dec_mul (price trade) (mon_factor tid);
          pnl = calculate_pnl trade cur_price
      in if pnl < dec_mul (dec_neg (price trade)) (stop_loss_pct cfg)
         then (tid, ''StopLoss'') # realistic_trades_to_close cfg mon_factor rnd rest
         else if pnl \<ge> 5 / 10
         then (tid, ''ProfitTaken'') # realistic_trades_to_close cfg mon_factor rnd rest
         else if rnd tid < 8 / 100
         then (tid, if pnl > 0 then ''ProfitTaken'' else ''StopLoss'')
              # realistic_trades_to_close cfg mon_factor rnd rest
         else realistic_trades_to_close cfg mon_factor rnd rest)"

definition monitor_realistic_risks ::
  "'a system_scheme \<Rightarrow> (string \<Rightarrow> decimal) \<Rightarrow> (string \<Rightarrow> pyfloat) \<Rightarrow> (string \<Rightarrow> decimal) \<Rightarrow>
   'a system_scheme" where
  "monitor_realistic_risks s mon_factor rnd close_factor =
     (if current_drawdown (performance_metrics s) > max_drawdown (config s) then s
      else close_trades s (realistic_trades_to_close (config s) mon_factor rnd (active_trades s))
             close_factor)"

section \<open>Performance tracking\<close>

text \<open>
  \<^verbatim>\<open>update_performance_tracking\<close> (\<^verbatim>\<open>update_realistic_performance_tracking\<close> in the third
  file); the files differ in the logging only. The metrics object is updated in place,
  field after field, so an exception leaves the fields written before it; the model
  returns the exception, if any, with the state left behind. \<open>now\<close> is
  \<^verbatim>\<open>datetime.now()\<close>.
  \<^verbatim>\<open>
    metrics.total_trades = len(self.trade_history)
    metrics.successful_trades = len([t for t in self.trade_history if t.status == "ProfitTaken"])
    metrics.failed_trades = len([t for t in self.trade_history if t.status == "StopLoss"])
    if metrics.total_trades > 0:
        metrics.win_rate = metrics.successful_trades / metrics.total_trades
    profits = [t.actual_profit for t in self.trade_history
               if t.actual_profit and t.actual_profit > 0]
    losses = [abs(t.actual_profit) for t in self.trade_history
              if t.actual_profit and t.actual_profit < 0]
    metrics.total_profit = sum(profits, Decimal('0'))
    metrics.total_loss = sum(losses, Decimal('0'))
    if metrics.total_trades > 0:
        net_profit = metrics.total_profit - metrics.total_loss
        metrics.average_profit_per_trade = net_profit / metrics.total_trades
    total_capital = self.config.total_capital
    current_capital = self.available_capital + sum(self.allocated_capital.values(), Decimal('0'))
    if current_capital < total_capital:
        metrics.current_drawdown = float((total_capital - current_capital) / total_capital)
        metrics.max_drawdown_reached = max(metrics.max_drawdown_reached, metrics.current_drawdown)
    today = datetime.now().date()
    metrics.trades_today = len([t for t in self.trade_history if t.executed_at.date() == today])
    metrics.daily_target_progress = metrics.trades_today / self.config.target_trades_per_day
  \<close>
\<close>

definition profits_of :: "trade_result list \<Rightarrow> decimal list" where
  "profits_of hist =
     map (\<lambda>t. the (actual_profit t))
       (filter (\<lambda>t. case actual_profit t of None \<Rightarrow> False | Some p \<Rightarrow> p \<noteq> 0 \<and> p > 0) hist)"

definition losses_of :: "trade_result list \<Rightarrow> decimal list" where
  "losses_of hist =
     map (\<lambda>t. dec_abs (the (actual_profit t)))
       (filter (\<lambda>t. case actual_profit t of None \<Rightarrow> False | Some p \<Rightarrow> p \<noteq> 0 \<and> p < 0) hist)"

definition current_capital_of :: "'a system_scheme \<Rightarrow> decimal" where
  "current_capital_of s =
     dec_add (available_capital s) (dec_sum (dict_values (allocated_capital s)))"

definition update_performance_tracking ::
  "'a system_scheme \<Rightarrow> datetime \<Rightarrow> error option \<times> 'a system_scheme" where
  "update_performance_tracking s now =
     (let hist = trade_history s;
          m0 = performance_metrics s;
          m1 = m0\<lparr> total_trades := int (length hist),
                   successful_trades := int (length (filter (\<lambda>t. status t = ''ProfitTaken'') hist)),
                   failed_trades := int (length (filter (\<lambda>t. status t = ''StopLoss'') hist)) \<rparr>;
          m2 = (if total_trades m1 > 0
                then m1\<lparr> win_rate := of_int (successful_trades m1) / of_int (total_trades m1) \<rparr>
                else m1);
          m3 = m2\<lparr> total_profit := dec_sum (profits_of hist),
                   total_loss := dec_sum (losses_of hist) \<rparr>;
          m4 = (if total_trades m3 > 0
                then m3\<lparr> average_profit_per_trade :=
                           dec_round (dec_sub (total_profit m3) (total_loss m3)
                                      / of_int (total_trades m3)) \<rparr>
                else m3);
          total_cap = total_capital (config s);
          current_capital = current_capital_of s
      in if current_capital < total_cap \<and> total_cap = 0
         then (Some DecimalDivisionByZero, s\<lparr> performance_metrics := m4 \<rparr>)
         else
           (let m5 = (if current_capital < total_cap
                      then (let dd = dec_round (dec_sub total_cap current_capital / total_cap)
                            in m4\<lparr> current_drawdown := dd,
                                   max_drawdown_reached := max (max_drawdown_reached m4) dd \<rparr>)
                      else m4);
                today = date_of now;
                m6 = m5\<lparr> trades_today :=
                           int (length (filter (\<lambda>t. date_of (executed_at t) = today) hist)) \<rparr>
            in if target_trades_per_day (config s) = 0
               then (Some ZeroDivisionError, s\<lparr> performance_metrics := m6 \<rparr>)
               else (None,
                     s\<lparr> performance_metrics :=
                          m6\<lparr> daily_target_progress :=
                                 of_int (trades_today m6) / of_int (target_trades_per_day (config s)) \<rparr> \<rparr>)))"

section \<open>The ledger equation and operation sequences\<close>

text \<open>
  The realized profit and loss of the closed-trade history, and the conservation equation
  \<open>available + \<Sum> allocated = total_capital + \<Sum> realized\<close>.
\<close>

definition realized_pnl :: "trade_result list \<Rightarrow> decimal" where
  "realized_pnl hist = sum_list (map (\<lambda>t. case actual_profit t of None \<Rightarrow> 0 | Some p \<Rightarrow> p) hist)"

definition conserved :: "'a system_scheme \<Rightarrow> bool" where
  "conserved s \<longleftrightarrow>
     available_capital s + sum_list (dict_values (allocated_capital s))
       = total_capital (config s) + realized_pnl (trade_history s)"

text \<open>
  A ledger operation is a reserve (\<^verbatim>\<open>update_capital_allocation\<close> of a trade) or a release
  (\<^verbatim>\<open>close_trade\<close> of an identifier, with a status and the drawn price factor). A reserve
  that raises leaves the state as it was.
\<close>

datatype ledger_op = Reserve trade_result | Release string string decimal

fun ledger_step :: "'a system_scheme \<Rightarrow> ledger_op \<Rightarrow> 'a system_scheme" where
  "ledger_step s (Reserve trade) =
     (case update_capital_allocation s trade of Inl e \<Rightarrow> s | Inr s' \<Rightarrow> s')"
| "ledger_step s (Release tid st factor) = close_trade s tid st factor"

text \<open>The states observed after each operation of a sequence.\<close>

fun ledger_trace :: "'a system_scheme \<Rightarrow> ledger_op list \<Rightarrow> 'a system_scheme list" where
  "ledger_trace s [] = []"
| "ledger_trace s (op # ops) = ledger_step s op # ledger_trace (ledger_step s op) ops"

text \<open>
  An operation is matched in a state when a reserve uses an identifier with no allocation
  yet, and a release of an open trade finds the allocation of that trade.
\<close>

fun matched_op :: "'a system_scheme \<Rightarrow> ledger_op \<Rightarrow> bool" where
  "matched_op s (Reserve trade) = (dict_get (allocated_capital s) (trade_id trade) = None)"
| "matched_op s (Release tid st factor) =
     (dict_get (active_trades s) tid = None \<or> dict_get (allocated_capital s) tid \<noteq> None)"

text \<open>
  An operation is unrounded in a state when the \<^verbatim>\<open>Decimal\<close> operations that write
  \<^verbatim>\<open>available_capital\<close> are exact there: the subtraction
  \<^verbatim>\<open>self.available_capital -= trade_capital\<close> of a reserve, and the two additions of
  \<^verbatim>\<open>self.available_capital += capital_returned + pnl\<close> of a release.
\<close>

fun unrounded_op :: "'a system_scheme \<Rightarrow> ledger_op \<Rightarrow> bool" where
  "unrounded_op s (Reserve trade) =
     (case decimal_div (dec_mul (quantity trade) (price trade)) (of_int (leverage trade)) of
        Inl e \<Rightarrow> True
      | Inr trade_capital \<Rightarrow>
          dec_sub (available_capital s) trade_capital = available_capital s - trade_capital)"
| "unrounded_op s (Release tid st factor) =
     (case dict_get (active_trades s) tid of
        None \<Rightarrow> True
      | Some trade \<Rightarrow>
          (case dict_get (allocated_capital s) tid of
             None \<Rightarrow> True
           | Some capital_returned \<Rightarrow>
               (let pnl = calculate_pnl trade (dec_mul (price trade) factor)
                in dec_add capital_returned pnl = capital_returned + pnl \<and>
                   dec_add (available_capital s) (capital_returned + pnl)
                     = available_capital s + (capital_returned + pnl))))"

fun admissible_ops :: "'a system_scheme \<Rightarrow> ledger_op list \<Rightarrow> bool" where
  "admissible_ops s [] = True"
| "admissible_ops s (op # ops) =
     (matched_op s op \<and> unrounded_op s op \<and> admissible_ops (ledger_step s op) ops)"

section \<open>Sample states\<close>

text \<open>
  A sample open trade (100 units bought at 4 with leverage 100, so a margin of 4) and a
  running system holding it in its open set, with no allocation recorded for it yet.
\<close>

definition sample_trade :: trade_result where
  "sample_trade =
     \<lparr> trade_id = ''trade-1'', symbol = ''BTCUSDT'', side = ''Buy'', quantity = 100, price = 4,
       leverage = 100, order_id = ''demo-BTCUSDT-1'', executed_at = 0, expected_profit = 1,
       actual_profit = None, status = ''Executed'' \<rparr>"

definition sample_state :: system where
  "sample_state = init_system\<lparr> active_trades := [(''trade-1'', sample_trade)], running := True \<rparr>"

definition sample_ops :: "ledger_op list" where
  "sample_ops = [Reserve sample_trade, Release ''trade-1'' ''ProfitTaken'' (1001 / 1000)]"

text \<open>The metrics published by a performance refresh.\<close>

definition refreshed_metrics :: "'a system_scheme \<Rightarrow> datetime \<Rightarrow> performance_metrics_rec" where
  "refreshed_metrics s now = performance_metrics (snd (update_performance_tracking s now))"

text \<open>
  A state whose history holds the sample trade closed three times, as \<^verbatim>\<open>ProfitTaken\<close>,
  \<^verbatim>\<open>StopLoss\<close> and \<^verbatim>\<open>Cancelled\<close>; and a state whose capital is whole again while its
  metrics still record a drawdown of 1.2%.
\<close>

definition history_state :: system where
  "history_state =
     init_system\<lparr> trade_history :=
       [closed_trade sample_trade ''ProfitTaken'' (1001 / 1000),
        closed_trade sample_trade ''StopLoss'' (999 / 1000),
        closed_trade sample_trade ''Cancelled'' 1] \<rparr>"

definition recovered_state :: system where
  "recovered_state =
     init_system\<lparr> performance_metrics :=
       PerformanceMetrics\<lparr> current_drawdown := 12 / 1000, max_drawdown_reached := 12 / 1000 \<rparr> \<rparr>"

text \<open>
  A sample instrument that passes the eligibility filter: volatility 2%, a prediction with
  confidence 0.78125 and direction \<^verbatim>\<open>Long\<close>.
\<close>

definition sample_asset :: trading_asset where
  "sample_asset =
     \<lparr> asset_symbol = ''BTCUSDT'', current_price = 7, daily_volume = 2000000,
       volatility_24h = 2 / 100, min_order_size = 1 / 1000, asset_max_leverage = 100,
       confidence_score = 8 / 10,
       quantum_prediction = Some \<lparr> pred_direction = ''Long'', pred_confidence = 25 / 32 \<rparr>,
       last_updated = Some 0 \<rparr>"

text \<open>A random draw that has the same value for every trade.\<close>

definition const_factor :: "rat \<Rightarrow> string \<Rightarrow> rat" where
  "const_factor c tid = c"

text \<open>
  In the running system every open trade is stored under its own \<^verbatim>\<open>trade_id\<close>
  (\<^verbatim>\<open>self.active_trades[trade_result.trade_id] = trade_result\<close>); \<open>not_in_history tid\<close> says
  that no closed record carries the identifier \<open>tid\<close>.
\<close>

definition keyed_by_id :: "(string, trade_result) dict \<Rightarrow> bool" where
  "keyed_by_id d = list_all (\<lambda>(k, t). trade_id t = k) d"

definition not_in_history :: "string \<Rightarrow> trade_result list \<Rightarrow> bool" where
  "not_in_history tid hist = list_all (\<lambda>t. trade_id t \<noteq> tid) hist"

text \<open>
  The stop-loss scenario: one unit bought at 100.00, held by a running system of the first
  file.
\<close>

definition stop_trade :: trade_result where
  "stop_trade =
     \<lparr> trade_id = ''trade-7'', symbol = ''SOLUSDT'', side = ''Buy'', quantity = 1, price = 100,
       leverage = 50, order_id = ''demo-SOLUSDT-7'', executed_at = 0, expected_profit = 1,
       actual_profit = None, status = ''Executed'' \<rparr>"

definition stop_state :: system where
  "stop_state =
     init_system\<lparr> available_capital := 10, allocated_capital := [(''trade-7'', 2)],
       active_trades := [(''trade-7'', stop_trade)], running := True \<rparr>"

text \<open>
  The drawdown scenario: a running system of the second file that has lost 0.144 of its
  12.00 on a closed trade, holds one open trade with a margin of 4, and whose metrics
  record the drawdown of 1.2%.
\<close>

definition breach_state :: counted_system where
  "breach_state =
     init_counted_system\<lparr> available_capital := 7856 / 1000,
       allocated_capital := [(''trade-1'', 4)],
       active_trades := [(''trade-1'', sample_trade)],
       trade_history := [closed_trade (sample_trade\<lparr> trade_id := ''trade-0'' \<rparr>) ''StopLoss''
                           (99964 / 100000)],
       performance_metrics := PerformanceMetrics\<lparr> current_drawdown := 12 / 1000,
                                                   max_drawdown_reached := 12 / 1000 \<rparr>,
       running := True, trade_counter := 2 \<rparr>"

text \<open>
  The ledger scenario of the second file: one instrument priced 1 with confidence 0.8, so
  that every trade has leverage 64, quantity 256 and a margin of exactly 4.
\<close>

definition ledger_asset :: trading_asset where
  "ledger_asset =
     \<lparr> asset_symbol = ''ETHUSDT'', current_price = 1, daily_volume = 2000000,
       volatility_24h = 2 / 100, min_order_size = 1 / 1000, asset_max_leverage = 100,
       confidence_score = 8 / 10,
       quantum_prediction = Some \<lparr> pred_direction = ''Long'', pred_confidence = 8 / 10 \<rparr>,
       last_updated = Some 0 \<rparr>"

definition ledger_signal :: signal where
  "ledger_signal =
     \<lparr> sig_should_trade = True, sig_confidence = 4 / 5, sig_direction = ''Long'',
       sig_leverage = 64, sig_expected_profit = 1536 / 625, sig_risk_score = 21 / 50 \<rparr>"

definition cycle_env :: "string \<Rightarrow> exec_env" where
  "cycle_env ms = \<lparr> trade_ms = ms, order_ms = ms, order_rand = ''1234'', exec_now = 0 \<rparr>"

definition ledger_trade :: "string \<Rightarrow> trade_result" where
  "ledger_trade ms =
     \<lparr> trade_id = ''trade-'' @ ms, symbol = ''ETHUSDT'', side = ''Buy'', quantity = 256, price = 1,
       leverage = 64, order_id = ''DEMO-ETHUSDT-'' @ ms @ ''-1234'', executed_at = 0,
       expected_profit = 1536 / 625, actual_profit = None, status = ''Executed'' \<rparr>"

definition ledger_s0 :: counted_system where
  "ledger_s0 = init_counted_system\<lparr> filtered_assets := [ledger_asset], running := True \<rparr>"

definition ledger_s3 :: counted_system where
  "ledger_s3 =
     snd (enh_execute_trading_cycle
       (snd (enh_execute_trading_cycle
         (snd (enh_execute_trading_cycle ledger_s0 (cycle_env ''1000'')))
         (cycle_env ''2000'')))
       (cycle_env ''3000''))"

text \<open>
  The over-commitment scenarios. For the first file: a system with exactly 5.00 available,
  one open trade holding 5.00 and two closed trades that lost 1.00 each, offered the
  sample instrument at the price 7. For the second file: the system as it starts, offered
  one instrument at the price 0.11, and run for three execution cycles.
\<close>

definition overcommit_state :: system where
  "overcommit_state =
     init_system\<lparr> available_capital := 5,
       allocated_capital := [(''trade-3000'', 5)],
       active_trades :=
         [(''trade-3000'', sample_trade\<lparr> trade_id := ''trade-3000'', quantity := 125 \<rparr>)],
       trade_history := [closed_trade sample_trade ''StopLoss'' (9975 / 10000),
                         closed_trade sample_trade ''StopLoss'' (9975 / 10000)],
       filtered_assets := [sample_asset], running := True \<rparr>"

definition cheap_asset :: trading_asset where
  "cheap_asset =
     \<lparr> asset_symbol = ''DOGEUSDT'', current_price = 11 / 100, daily_volume = 2000000,
       volatility_24h = 2 / 100, min_order_size = 1 / 1000, asset_max_leverage = 100,
       confidence_score = 8 / 10,
       quantum_prediction = Some \<lparr> pred_direction = ''Long'', pred_confidence = 13 / 16 \<rparr>,
       last_updated = Some 0 \<rparr>"

definition startup_state :: counted_system where
  "startup_state = init_counted_system\<lparr> filtered_assets := [cheap_asset], running := True \<rparr>"

definition after_three_cycles :: counted_system where
  "after_three_cycles =
     snd (enh_execute_trading_cycle
       (snd (enh_execute_trading_cycle
         (snd (enh_execute_trading_cycle startup_state (cycle_env ''1000'')))
         (cycle_env ''2000'')))
       (cycle_env ''3000''))"

text \<open>
  A trade whose margin \<open>1 * 1 / 75\<close> has no finite decimal expansion, and a trade whose
  margin is exactly 1.00.
\<close>

definition rounded_trade :: trade_result where
  "rounded_trade =
     \<lparr> trade_id = ''trade-2'', symbol = ''ADAUSDT'', side = ''Buy'', quantity = 1, price = 1,
       leverage = 75, order_id = ''demo-ADAUSDT-2'', executed_at = 0, expected_profit = 1,
       actual_profit = None, status = ''Executed'' \<rparr>"

definition unit_margin_trade :: trade_result where
  "unit_margin_trade =
     \<lparr> trade_id = ''trade-4000'', symbol = ''ETHUSDT'', side = ''Buy'', quantity = 64, price = 1,
       leverage = 64, order_id = ''DEMO-ETHUSDT-4000-1234'', executed_at = 0,
       expected_profit = 1536 / 625, actual_profit = None, status = ''Executed'' \<rparr>"

text \<open>
  The signal and the trade of the over-commitment scenario of the first file, and the
  trades of that of the second file.
\<close>

definition overcommit_signal :: signal where
  "overcommit_signal =
     \<lparr> sig_should_trade = True, sig_confidence = 25 / 32, sig_direction = ''Long'',
       sig_leverage = 78, sig_expected_profit = 195 / 64, sig_risk_score = 49 / 100 \<rparr>"

definition overcommit_trade :: trade_result where
  "overcommit_trade =
     \<lparr> trade_id = ''trade-4000'', symbol = ''BTCUSDT'', side = ''Buy'',
       quantity = 557143 / 10000, price = 7, leverage = 78,
       order_id = ''demo-BTCUSDT-4000'', executed_at = 0, expected_profit = 195 / 64,
       actual_profit = None, status = ''Executed'' \<rparr>"

definition cheap_trade :: "string \<Rightarrow> decimal \<Rightarrow> decimal \<Rightarrow> trade_result" where
  "cheap_trade ms qty ep =
     \<lparr> trade_id = ''trade-'' @ ms, symbol = ''DOGEUSDT'', side = ''Buy'', quantity = qty,
       price = 11 / 100, leverage = 65, order_id = ''DEMO-DOGEUSDT-'' @ ms @ ''-1234'',
       executed_at = 0, expected_profit = ep, actual_profit = None, status = ''Executed'' \<rparr>"

section \<open>Properties\<close>

subsection \<open>Decimal arithmetic\<close>

lemma floor_rat_numeral: "\<lfloor>(numeral a :: rat) / numeral b\<rfloor> = numeral a div numeral b"
  by (metis floor_divide_of_int_eq of_int_numeral)

text \<open>The equations that evaluate a \<^verbatim>\<open>Decimal\<close> operation on numerals.\<close>

lemmas dec_eval = dec_add_def dec_sub_def dec_mul_def dec_neg_def dec_abs_def dec_sum_def
  dec_round_def adjusted_def round_half_even_def pow10_def ilog10.simps floor_rat_numeral Let_def

lemma adjusted_minus: "adjusted (- x) = adjusted x"
  by (simp add: adjusted_def)

lemma dec_round_minus: "dec_round (- x) = - dec_round x"
  by (simp add: dec_round_def adjusted_minus Let_def)

subsection \<open>Dictionaries\<close>

lemma sum_dict_set:
  "sum_list (dict_values (dict_set d k v)) =
     sum_list (dict_values d) - (case dict_get d k of None \<Rightarrow> 0 | Some old \<Rightarrow> old) + (v::rat)"
  by (induction d k v rule: dict_set.induct) (auto simp: dict_values_def dict_get_def)

lemma sum_dict_pop:
  "sum_list (dict_values (dict_pop d k)) =
     sum_list (dict_values d) - (case dict_get d k of None \<Rightarrow> 0 | Some old \<Rightarrow> (old::rat))"
  by (induction d k rule: dict_pop.induct) (auto simp: dict_values_def dict_get_def)

lemma dict_get_pop_same: "distinct (map fst d) \<Longrightarrow> dict_get (dict_pop d k) k = None"
  by (induction d k rule: dict_pop.induct) (auto simp: dict_get_def map_of_eq_None_iff)

lemma dict_pop_absent: "dict_get d k = None \<Longrightarrow> dict_pop d k = d"
  by (induction d k rule: dict_pop.induct) (auto simp: dict_get_def split: if_splits)

subsection \<open>Capital conservation\<close>

lemma realized_pnl_append:
  "realized_pnl (hist @ [t]) =
     realized_pnl hist + (case actual_profit t of None \<Rightarrow> 0 | Some p \<Rightarrow> p)"
  by (simp add: realized_pnl_def)

lemma reserve_conserved:
  assumes "conserved s" and "matched_op s (Reserve trade)" and "unrounded_op s (Reserve trade)"
  shows "conserved (ledger_step s (Reserve trade))"
  using assms
  by (auto simp: update_capital_allocation_def conserved_def sum_dict_set split: sum.splits)

lemma release_conserved:
  assumes "conserved s" and "matched_op s (Release tid st factor)"
    and "unrounded_op s (Release tid st factor)"
  shows "conserved (ledger_step s (Release tid st factor))"
  using assms
  by (auto simp: close_trade_def return_capital_def conserved_def sum_dict_pop
      realized_pnl_append Let_def dec_add_def split: option.splits)

lemma ledger_step_conserved:
  "conserved s \<Longrightarrow> matched_op s op \<Longrightarrow> unrounded_op s op \<Longrightarrow> conserved (ledger_step s op)"
  by (cases op) (simp_all only: reserve_conserved release_conserved)

text \<open>
  Claim C1, as the code has it. From a state in which the conservation equation
  \<open>available_capital + \<Sum> allocated_capital = total_capital + \<Sum> actual_profit of the history\<close>
  holds, it holds after every operation of a sequence of reserves and releases in which
  every reserve uses a trade identifier that has no allocation yet, every release of an
  open trade finds that trade's entry in \<^verbatim>\<open>allocated_capital\<close>, and no write to
  \<^verbatim>\<open>available_capital\<close> is rounded by the 28-digit \<^verbatim>\<open>Decimal\<close> context.
\<close>

theorem capital_conservation:
  "conserved s \<Longrightarrow> admissible_ops s ops \<Longrightarrow> \<forall>s' \<in> set (ledger_trace s ops). conserved s'"
proof (induction ops arbitrary: s)
  case Nil
  then show ?case by simp
next
  case (Cons op ops)
  then show ?case using ledger_step_conserved by auto
qed

text \<open>
  Claim C1, witness: the sample state satisfies the equation, the sequence "reserve the
  sample trade, then release it" is admissible, and the equation holds after both steps.
\<close>

theorem capital_conservation_witness:
  "conserved sample_state \<and> admissible_ops sample_state sample_ops \<and>
   conserved (ledger_step sample_state (Reserve sample_trade)) \<and>
   conserved (ledger_step (ledger_step sample_state (Reserve sample_trade))
                (Release ''trade-1'' ''ProfitTaken'' (1001 / 1000)))"
proof -
  have h1: "conserved sample_state"
    by (simp add: sample_state_def sample_trade_def init_system_def default_config_def
        conserved_def dict_values_def realized_pnl_def)
  have h2: "admissible_ops sample_state sample_ops"
    by (simp add: sample_state_def sample_trade_def sample_ops_def init_system_def
        default_config_def update_capital_allocation_def decimal_div_def dict_get_def
        calculate_pnl_def dec_eval)
  from capital_conservation [OF h1 h2] h1 h2 show ?thesis by (simp add: sample_ops_def)
qed

text \<open>
  Claim C1, as stated, fails, in three ways. In the sample state the equation holds and the
  open trade has no entry in \<^verbatim>\<open>allocated_capital\<close>; releasing it appends its realized loss
  to the history and leaves \<^verbatim>\<open>available_capital\<close> as it was. From the initial state,
  reserving the same trade identifier twice deducts the margin twice while
  \<^verbatim>\<open>allocated_capital\<close> keeps one entry. And from the initial state, one reserve of a
  trade with the margin \<open>1 / 75\<close> (28 digits of \<open>0.01333\<dots>\<close>) rounds the difference
  \<open>12.00 - margin\<close> to 28 digits, so that available plus allocated is no longer 12.00.
\<close>

theorem capital_conservation_counterexample:
  "conserved sample_state \<and>
   \<not> conserved (close_trade sample_state ''trade-1'' ''StopLoss'' (999 / 1000)) \<and>
   conserved (ledger_step init_system (Reserve sample_trade)) \<and>
   \<not> conserved (ledger_step (ledger_step init_system (Reserve sample_trade))
                  (Reserve sample_trade)) \<and>
   conserved init_system \<and> matched_op init_system (Reserve rounded_trade) \<and>
   available_capital (ledger_step init_system (Reserve rounded_trade))
     = 1198666666666666666666666667 / 10 ^ 26 \<and>
   allocated_capital (ledger_step init_system (Reserve rounded_trade))
     = [(''trade-2'', 1333333333333333333333333333 / 10 ^ 29)] \<and>
   \<not> conserved (ledger_step init_system (Reserve rounded_trade))"
proof -
  have a: "conserved sample_state \<and>
     \<not> conserved (close_trade sample_state ''trade-1'' ''StopLoss'' (999 / 1000))"
    by (simp add: sample_state_def sample_trade_def init_system_def default_config_def
        conserved_def close_trade_def return_capital_def calculate_pnl_def dict_get_def
        dict_values_def realized_pnl_def dec_eval)
  have b: "conserved (ledger_step init_system (Reserve sample_trade)) \<and>
     \<not> conserved (ledger_step (ledger_step init_system (Reserve sample_trade))
                  (Reserve sample_trade))"
    by (simp add: sample_trade_def init_system_def default_config_def
        conserved_def update_capital_allocation_def decimal_div_def dict_get_def
        dict_values_def realized_pnl_def dec_eval)
  have c: "conserved init_system \<and> matched_op init_system (Reserve rounded_trade)"
    by (simp add: init_system_def default_config_def conserved_def dict_values_def
        realized_pnl_def dict_get_def)
  have d: "ledger_step init_system (Reserve rounded_trade)
           = init_system\<lparr> available_capital := 1198666666666666666666666667 / 10 ^ 26,
               allocated_capital := [(''trade-2'', 1333333333333333333333333333 / 10 ^ 29)] \<rparr>"
    by (simp add: rounded_trade_def init_system_def default_config_def
        update_capital_allocation_def decimal_div_def dec_eval)
  have e: "\<not> conserved (ledger_step init_system (Reserve rounded_trade))"
    unfolding d
    by (simp add: init_system_def default_config_def conserved_def dict_values_def
        realized_pnl_def)
  from a b c d e show ?thesis by simp
qed

subsection \<open>Releasing twice\<close>

lemma close_trade_absent:
  "dict_get (active_trades s) tid = None \<Longrightarrow> close_trade s tid st factor = s"
  by (simp add: close_trade_def)

lemma close_trade_running: "running (close_trade s tid st factor) = running s"
  by (auto simp: close_trade_def return_capital_def Let_def split: option.splits)

lemma close_trade_active:
  "active_trades (close_trade s tid st factor) = dict_pop (active_trades s) tid"
proof (cases "dict_get (active_trades s) tid")
  case None
  then show ?thesis by (simp add: close_trade_def dict_pop_absent)
next
  case (Some t)
  then show ?thesis
    by (auto simp: close_trade_def return_capital_def Let_def split: option.splits)
qed

text \<open>
  Claim C7, as the code has it. A release of a trade identifier that has already been
  released is a silent no-op: the second \<^verbatim>\<open>close_trade\<close> returns the state the first one
  left, and the \<^verbatim>\<open>running\<close> flag keeps the value it had before both.
\<close>

theorem double_release_is_silent:
  assumes "is_dict (active_trades s)"
  shows "close_trade (close_trade s tid st factor) tid st' factor' = close_trade s tid st factor
       \<and> running (close_trade (close_trade s tid st factor) tid st' factor') = running s"
proof -
  have "dict_get (active_trades (close_trade s tid st factor)) tid = None"
    using assms by (simp add: close_trade_active is_dict_def dict_keys_def dict_get_pop_same)
  then have "close_trade (close_trade s tid st factor) tid st' factor'
             = close_trade s tid st factor"
    by (rule close_trade_absent)
  then show ?thesis by (simp add: close_trade_running)
qed

text \<open>Claim C7, witness: the sample state, its one open trade released twice.\<close>

theorem double_release_is_silent_witness:
  "is_dict (active_trades sample_state) \<and>
   close_trade (close_trade sample_state ''trade-1'' ''StopLoss'' (999 / 1000))
     ''trade-1'' ''StopLoss'' (998 / 1000)
   = close_trade sample_state ''trade-1'' ''StopLoss'' (999 / 1000) \<and>
   running (close_trade (close_trade sample_state ''trade-1'' ''StopLoss'' (999 / 1000))
     ''trade-1'' ''StopLoss'' (998 / 1000)) = running sample_state"
proof -
  have h: "is_dict (active_trades sample_state)"
    by (simp add: sample_state_def is_dict_def dict_keys_def)
  from double_release_is_silent [OF h] h show ?thesis by blast
qed

text \<open>
  Claim C7, as stated, fails: in the running sample state the second release of
  \<^verbatim>\<open>trade-1\<close> completes, the system is still running, and the history holds the trade once.
\<close>

theorem double_release_counterexample:
  "running (close_trade (close_trade sample_state ''trade-1'' ''StopLoss'' (999 / 1000))
     ''trade-1'' ''StopLoss'' (998 / 1000)) \<and>
   length (trade_history
     (close_trade (close_trade sample_state ''trade-1'' ''StopLoss'' (999 / 1000))
        ''trade-1'' ''StopLoss'' (998 / 1000))) = 1"
  by (simp add: sample_state_def sample_trade_def init_system_def close_trade_def
      return_capital_def dict_get_def)

subsection \<open>Performance refresh\<close>

lemma refresh_history: "trade_history (snd (update_performance_tracking s now)) = trade_history s"
  by (simp add: update_performance_tracking_def Let_def)

lemma refresh_counts:
  "total_trades (refreshed_metrics s now) = int (length (trade_history s)) \<and>
   successful_trades (refreshed_metrics s now)
     = int (length (filter (\<lambda>t. status t = ''ProfitTaken'') (trade_history s)))"
  by (simp add: refreshed_metrics_def update_performance_tracking_def Let_def)

lemma refresh_win_rate:
  "trade_history s \<noteq> [] \<Longrightarrow>
   win_rate (refreshed_metrics s now)
     = of_int (int (length (filter (\<lambda>t. status t = ''ProfitTaken'') (trade_history s))))
       / of_int (int (length (trade_history s)))"
  by (simp add: refreshed_metrics_def update_performance_tracking_def Let_def)

text \<open>
  Claim C8. Whenever \<^verbatim>\<open>total_trades\<close> is positive after a performance refresh, the
  published \<^verbatim>\<open>win_rate\<close> is \<^verbatim>\<open>successful_trades / total_trades\<close>, where
  \<^verbatim>\<open>successful_trades\<close> counts the closed trades with status \<^verbatim>\<open>ProfitTaken\<close> and
  \<^verbatim>\<open>total_trades\<close> counts all closed trades, whatever their status. The three values are
  a function of the closed-trade history alone: a refresh of any other state with the same
  history, at any time, publishes the same values, and so does a refresh repeated on the
  refreshed state.
\<close>

theorem win_rate_consistency:
  assumes "total_trades (refreshed_metrics s now) > 0" and "trade_history s2 = trade_history s"
  shows "total_trades (refreshed_metrics s now) = int (length (trade_history s)) \<and>
         successful_trades (refreshed_metrics s now)
           = int (length (filter (\<lambda>t. status t = ''ProfitTaken'') (trade_history s))) \<and>
         win_rate (refreshed_metrics s now)
           = of_int (successful_trades (refreshed_metrics s now))
             / of_int (total_trades (refreshed_metrics s now)) \<and>
         win_rate (refreshed_metrics s2 now2) = win_rate (refreshed_metrics s now) \<and>
         successful_trades (refreshed_metrics s2 now2)
           = successful_trades (refreshed_metrics s now) \<and>
         total_trades (refreshed_metrics s2 now2) = total_trades (refreshed_metrics s now) \<and>
         win_rate (refreshed_metrics (snd (update_performance_tracking s now)) now2)
           = win_rate (refreshed_metrics s now)"
proof -
  from assms have ne: "trade_history s \<noteq> []" "trade_history s2 \<noteq> []"
    by (simp_all add: refresh_counts)
  show ?thesis
    using ne assms(2) by (simp add: refresh_counts refresh_win_rate refresh_history)
qed

text \<open>
  Claim C8, witness: three closed trades, one of them \<^verbatim>\<open>ProfitTaken\<close> and one
  \<^verbatim>\<open>Cancelled\<close>, give the win rate 1/3, also from a state that differs in everything but
  the history and on a second refresh a day later.
\<close>

theorem win_rate_consistency_witness:
  "total_trades (refreshed_metrics history_state 0) > 0 \<and>
   trade_history (history_state\<lparr> running := True, available_capital := 3 \<rparr>)
     = trade_history history_state \<and>
   total_trades (refreshed_metrics history_state 0) = 3 \<and>
   successful_trades (refreshed_metrics history_state 0) = 1 \<and>
   win_rate (refreshed_metrics history_state 0) = 1 / 3 \<and>
   win_rate (refreshed_metrics (history_state\<lparr> running := True, available_capital := 3 \<rparr>) 86400)
     = 1 / 3 \<and>
   win_rate (refreshed_metrics (snd (update_performance_tracking history_state 0)) 86400) = 1 / 3"
proof -
  have h1: "total_trades (refreshed_metrics history_state 0) > 0"
    by (simp add: refresh_counts history_state_def)
  have h2: "trade_history (history_state\<lparr> running := True, available_capital := 3 \<rparr>)
              = trade_history history_state"
    by simp
  have c: "length (filter (\<lambda>t. status t = ''ProfitTaken'') (trade_history history_state)) = 1"
    "length (trade_history history_state) = 3"
    by (simp_all add: history_state_def closed_trade_def)
  from win_rate_consistency [OF h1 h2, of 86400] h1 show ?thesis
    by (simp add: c)
qed

text \<open>
  Claim C10. When a performance refresh runs while \<^verbatim>\<open>available_capital\<close> plus the
  allocated capital is at least \<^verbatim>\<open>total_capital\<close>, the fields \<^verbatim>\<open>current_drawdown\<close> and
  \<^verbatim>\<open>max_drawdown_reached\<close> keep their previous values: a recorded drawdown is not reset
  when the capital has recovered.
\<close>

theorem drawdown_not_reset:
  assumes "current_capital_of s \<ge> total_capital (config s)"
  shows "current_drawdown (performance_metrics (snd (update_performance_tracking s now)))
           = current_drawdown (performance_metrics s) \<and>
         max_drawdown_reached (performance_metrics (snd (update_performance_tracking s now)))
           = max_drawdown_reached (performance_metrics s)"
  using assms by (simp add: update_performance_tracking_def Let_def)

text \<open>
  Claim C10, witness: with the full 12.00 available and a recorded drawdown of 1.2%, the
  refresh publishes 1.2% again, still above the limit of 0.9% that the risk monitor tests.
\<close>

theorem drawdown_not_reset_witness:
  "current_capital_of recovered_state \<ge> total_capital (config recovered_state) \<and>
   current_drawdown (performance_metrics (snd (update_performance_tracking recovered_state 0)))
     = 12 / 1000 \<and>
   max_drawdown_reached (performance_metrics (snd (update_performance_tracking recovered_state 0)))
     = 12 / 1000 \<and>
   current_drawdown (performance_metrics (snd (update_performance_tracking recovered_state 0)))
     > max_drawdown (config (snd (update_performance_tracking recovered_state 0)))"
proof -
  have h: "current_capital_of recovered_state \<ge> total_capital (config recovered_state)"
    by (simp add: recovered_state_def init_system_def default_config_def current_capital_of_def
        dict_values_def dec_eval)
  have c: "config (snd (update_performance_tracking recovered_state 0)) = default_config"
    by (simp add: update_performance_tracking_def Let_def recovered_state_def init_system_def)
  from drawdown_not_reset [OF h, of 0] h show ?thesis
    by (simp add: c)
       (simp add: recovered_state_def init_system_def PerformanceMetrics_def default_config_def)
qed

subsection \<open>Signal evaluation\<close>

text \<open>
  Claim C9, as the code has it. The signal is a function of the instrument snapshot, the
  configuration and the ledger's \<^verbatim>\<open>available_capital\<close>: under equal configurations, two
  evaluations of the same snapshot in states with equal available capital return equal
  signals (or raise the same exception), whatever the rest of the two states; and the
  confidence, direction, leverage and risk score of the signal are the same whatever the
  available capital is. This holds for the signal generator of the first and of the second
  file.
\<close>

theorem signal_depends_on_snapshot_and_capital:
  assumes "config s1 = config s2"
  shows "(available_capital s1 = available_capital s2 \<longrightarrow>
            generate_trading_signal s1 asset = generate_trading_signal s2 asset \<and>
            enh_generate_trading_signal s1 asset = enh_generate_trading_signal s2 asset) \<and>
         map_sum id (\<lambda>sg. (sig_confidence sg, sig_direction sg, sig_leverage sg, sig_risk_score sg))
             (generate_trading_signal s1 asset)
         = map_sum id (\<lambda>sg. (sig_confidence sg, sig_direction sg, sig_leverage sg, sig_risk_score sg))
             (generate_trading_signal s2 asset) \<and>
         map_sum id (\<lambda>sg. (sig_confidence sg, sig_direction sg, sig_leverage sg, sig_risk_score sg))
             (enh_generate_trading_signal s1 asset)
         = map_sum id (\<lambda>sg. (sig_confidence sg, sig_direction sg, sig_leverage sg, sig_risk_score sg))
             (enh_generate_trading_signal s2 asset)"
  using assms
  by (auto simp: generate_trading_signal_def enh_generate_trading_signal_def Let_def
      split: option.splits sum.splits)

text \<open>
  Claim C9, witness: the initial state and the running sample state, which holds an open
  trade, have the same configuration and the same available capital, and give the sample
  instrument the same signal.
\<close>

theorem signal_depends_on_snapshot_and_capital_witness:
  "config init_system = config sample_state \<and>
   available_capital init_system = available_capital sample_state \<and>
   generate_trading_signal init_system sample_asset
     = generate_trading_signal sample_state sample_asset \<and>
   enh_generate_trading_signal init_system sample_asset
     = enh_generate_trading_signal sample_state sample_asset"
proof -
  have h1: "config init_system = config sample_state" by (simp add: sample_state_def)
  have h2: "available_capital init_system = available_capital sample_state"
    by (simp add: sample_state_def)
  from signal_depends_on_snapshot_and_capital [OF h1, of sample_asset] h1 h2
  show ?thesis by blast
qed

text \<open>
  Claim C9, as stated, fails: the same snapshot evaluated with 12.00 available and with
  2.00 available gives two different signals, in \<^verbatim>\<open>should_trade\<close> and in
  \<^verbatim>\<open>expected_profit\<close>, with the generator of the first file and with that of the second.
\<close>

theorem signal_purity_counterexample:
  "generate_trading_signal init_system sample_asset
     = Inr \<lparr> sig_should_trade = True, sig_confidence = 25 / 32, sig_direction = ''Long'',
             sig_leverage = 78, sig_expected_profit = 195 / 64, sig_risk_score = 49 / 100 \<rparr> \<and>
   generate_trading_signal (init_system\<lparr> available_capital := 2 \<rparr>) sample_asset
     = Inr \<lparr> sig_should_trade = False, sig_confidence = 25 / 32, sig_direction = ''Long'',
             sig_leverage = 78, sig_expected_profit = 39 / 32, sig_risk_score = 49 / 100 \<rparr> \<and>
   enh_generate_trading_signal init_system sample_asset
     = Inr \<lparr> sig_should_trade = True, sig_confidence = 25 / 32, sig_direction = ''Long'',
             sig_leverage = 62, sig_expected_profit = 93 / 40, sig_risk_score = 41 / 100 \<rparr> \<and>
   enh_generate_trading_signal (init_system\<lparr> available_capital := 2 \<rparr>) sample_asset
     = Inr \<lparr> sig_should_trade = False, sig_confidence = 25 / 32, sig_direction = ''Long'',
             sig_leverage = 62, sig_expected_profit = 93 / 80, sig_risk_score = 41 / 100 \<rparr>"
  by (simp add: generate_trading_signal_def enh_generate_trading_signal_def sample_asset_def
      init_system_def default_config_def py_int_def py_truediv_def dec_eval)

subsection \<open>The ledger scenario\<close>

lemma ledger_signal_eq:
  assumes "config s = default_config" and "available_capital s \<ge> 4"
  shows "enh_generate_trading_signal s ledger_asset = Inr ledger_signal"
proof -
  have m: "min (available_capital s) 4 = 4" "3 \<le> available_capital s" using assms(2) by simp_all
  have p: "dec_mul 4 64 = 256" "dec_mul 256 (6 / 625) = 1536 / 625"
    by (simp_all add: dec_eval)
  show ?thesis
    using assms(1)
    by (simp add: enh_generate_trading_signal_def ledger_asset_def ledger_signal_def
        default_config_def py_int_def py_truediv_def m p Let_def)
qed

lemma ledger_cycle:
  assumes "config s = default_config" and "available_capital s \<ge> 4"
    and "filtered_assets s = [ledger_asset]"
  shows "enh_execute_trading_cycle s (cycle_env ms)
         = (Inr True,
            s\<lparr> trade_counter := trade_counter s + 1,
               available_capital := dec_sub (available_capital s) 4,
               allocated_capital := dict_set (allocated_capital s) (''trade-'' @ ms) 4,
               active_trades := dict_set (active_trades s) (''trade-'' @ ms) (ledger_trade ms) \<rparr>)"
proof -
  have m: "min (available_capital s) 4 = 4" "\<not> available_capital s < 3"
    using assms(2) by simp_all
  have sel: "enh_select_best_trading_opportunity s = Inr (Some (ledger_asset, ledger_signal))"
    using assms
    by (simp add: enh_select_best_trading_opportunity_def ledger_signal_eq py_truediv_def)
       (simp add: ledger_signal_def)
  have q: "decimal_div (dec_mul 4 64) 1 = Inr 256" "quantize4 256 = Inr 256"
    "decimal_div (dec_mul 256 1) 64 = Inr 4"
    by (simp_all add: decimal_div_def quantize4_def dec_eval)
  have ex: "enh_execute_trade s ledger_asset ledger_signal (cycle_env ms) = Inr (ledger_trade ms)"
    by (simp add: enh_execute_trade_def ledger_asset_def ledger_signal_def cycle_env_def
        ledger_trade_def m q Let_def)
  have tc: "decimal_div (dec_mul (quantity (ledger_trade ms)) (price (ledger_trade ms)))
              (of_int (leverage (ledger_trade ms))) = Inr 4"
    by (simp add: ledger_trade_def q)
  show ?thesis
    using assms m(2)
    by (simp add: enh_execute_trading_cycle_def sel ex update_capital_allocation_def tc Let_def)
       (simp add: ledger_trade_def)
qed

lemma ledger_sub: "dec_sub 12 4 = 8" "dec_sub 8 4 = 4" "dec_sub 4 4 = 0"
  by (simp_all add: dec_eval)

lemma ledger_s1_eq:
  "enh_execute_trading_cycle ledger_s0 (cycle_env ''1000'')
   = (Inr True,
      ledger_s0\<lparr> trade_counter := 1, available_capital := 8,
        allocated_capital := [(''trade-1000'', 4)],
        active_trades := [(''trade-1000'', ledger_trade ''1000'')] \<rparr>)"
  by (subst ledger_cycle)
     (simp_all add: ledger_s0_def init_counted_system_def default_config_def ledger_sub)

lemma ledger_s2_eq:
  "enh_execute_trading_cycle
     (ledger_s0\<lparr> trade_counter := 1, available_capital := 8,
        allocated_capital := [(''trade-1000'', 4)],
        active_trades := [(''trade-1000'', ledger_trade ''1000'')] \<rparr>) (cycle_env ''2000'')
   = (Inr True,
      ledger_s0\<lparr> trade_counter := 2, available_capital := 4,
        allocated_capital := [(''trade-1000'', 4), (''trade-2000'', 4)],
        active_trades := [(''trade-1000'', ledger_trade ''1000''),
                          (''trade-2000'', ledger_trade ''2000'')] \<rparr>)"
  by (subst ledger_cycle)
     (simp_all add: ledger_s0_def init_counted_system_def default_config_def ledger_sub)

lemma ledger_s3_eq:
  "enh_execute_trading_cycle
     (ledger_s0\<lparr> trade_counter := 2, available_capital := 4,
        allocated_capital := [(''trade-1000'', 4), (''trade-2000'', 4)],
        active_trades := [(''trade-1000'', ledger_trade ''1000''),
                          (''trade-2000'', ledger_trade ''2000'')] \<rparr>) (cycle_env ''3000'')
   = (Inr True,
      ledger_s0\<lparr> trade_counter := 3, available_capital := 0,
        allocated_capital := [(''trade-1000'', 4), (''trade-2000'', 4), (''trade-3000'', 4)],
        active_trades := [(''trade-1000'', ledger_trade ''1000''),
                          (''trade-2000'', ledger_trade ''2000''),
                          (''trade-3000'', ledger_trade ''3000'')] \<rparr>)"
  by (subst ledger_cycle)
     (simp_all add: ledger_s0_def init_counted_system_def default_config_def ledger_sub)

lemma ledger_s3_state:
  "ledger_s3 = ledger_s0\<lparr> trade_counter := 3, available_capital := 0,
        allocated_capital := [(''trade-1000'', 4), (''trade-2000'', 4), (''trade-3000'', 4)],
        active_trades := [(''trade-1000'', ledger_trade ''1000''),
                          (''trade-2000'', ledger_trade ''2000''),
                          (''trade-3000'', ledger_trade ''3000'')] \<rparr>"
  by (simp add: ledger_s3_def ledger_s1_eq ledger_s2_eq ledger_s3_eq)

lemma cycle_refuses_below_floor:
  "available_capital s < 3 \<Longrightarrow> enh_execute_trading_cycle s env = (Inr False, s)"
  by (simp add: enh_execute_trading_cycle_def)

lemma ledger_release:
  "close_trade ledger_s3 ''trade-1000'' ''ProfitTaken'' (513 / 512)
   = ledger_s0\<lparr> trade_counter := 3, available_capital := 45 / 10,
        allocated_capital := [(''trade-2000'', 4), (''trade-3000'', 4)],
        active_trades := [(''trade-2000'', ledger_trade ''2000''),
                          (''trade-3000'', ledger_trade ''3000'')],
        trade_history := [ledger_trade ''1000''\<lparr> actual_profit := Some (5 / 10),
                                                 status := ''ProfitTaken'' \<rparr>] \<rparr>"
proof -
  have p: "calculate_pnl (ledger_trade ''1000'') (dec_mul (price (ledger_trade ''1000'')) (513 / 512))
           = 1 / 2"
    by (simp add: calculate_pnl_def ledger_trade_def dec_eval)
  have q: "dec_add 4 (1 / 2) = 9 / 2" "dec_add 0 (9 / 2) = 9 / 2"
    by (simp_all add: dec_eval)
  show ?thesis
    by (simp add: ledger_s3_state close_trade_def return_capital_def dict_get_def p q Let_def)
       (simp add: ledger_s0_def init_counted_system_def)
qed

text \<open>
  Claim C4, as the code has it. With \<^verbatim>\<open>total_capital = 12.00\<close> and the cap of 4.00 per
  trade of the second file, three execution cycles open three trades that reserve 4.00 each
  and leave \<^verbatim>\<open>available_capital\<close> at exactly 0.00. An execution cycle that starts with
  less than the floor of 3.00 available opens no trade: it returns \<^verbatim>\<open>False\<close> and leaves
  the state as it was, and so does the fourth cycle of the scenario; no reservation of
  any amount is attempted and there is no \<^verbatim>\<open>InsufficientCapital\<close> result. Releasing the
  first of the three trades with a realized profit of +0.50 raises \<^verbatim>\<open>available_capital\<close>
  to exactly 4.50, the margin plus the profit.
\<close>

theorem ledger_scenario:
  assumes "available_capital s < 3"
  shows "enh_execute_trading_cycle s env = (Inr False, s) \<and>
   total_capital (config ledger_s0) = 12 \<and> available_capital ledger_s0 = 12 \<and>
   fst (enh_execute_trading_cycle ledger_s0 (cycle_env ''1000'')) = Inr True \<and>
   allocated_capital ledger_s3 = [(''trade-1000'', 4), (''trade-2000'', 4), (''trade-3000'', 4)] \<and>
   dict_keys (active_trades ledger_s3) = [''trade-1000'', ''trade-2000'', ''trade-3000''] \<and>
   available_capital ledger_s3 = 0 \<and>
   enh_execute_trading_cycle ledger_s3 (cycle_env ''4000'') = (Inr False, ledger_s3) \<and>
   available_capital (close_trade ledger_s3 ''trade-1000'' ''ProfitTaken'' (513 / 512)) = 45 / 10 \<and>
   allocated_capital (close_trade ledger_s3 ''trade-1000'' ''ProfitTaken'' (513 / 512))
     = [(''trade-2000'', 4), (''trade-3000'', 4)] \<and>
   map actual_profit
     (trade_history (close_trade ledger_s3 ''trade-1000'' ''ProfitTaken'' (513 / 512)))
     = [Some (5 / 10)]"
proof -
  have a: "total_capital (config ledger_s0) = 12 \<and> available_capital ledger_s0 = 12"
    by (simp add: ledger_s0_def init_counted_system_def default_config_def)
  have b: "fst (enh_execute_trading_cycle ledger_s0 (cycle_env ''1000'')) = Inr True"
    by (simp add: ledger_s1_eq)
  have c: "allocated_capital ledger_s3
             = [(''trade-1000'', 4), (''trade-2000'', 4), (''trade-3000'', 4)] \<and>
           dict_keys (active_trades ledger_s3) = [''trade-1000'', ''trade-2000'', ''trade-3000''] \<and>
           available_capital ledger_s3 = 0"
    by (simp add: ledger_s3_state dict_keys_def)
  have d: "enh_execute_trading_cycle ledger_s3 (cycle_env ''4000'') = (Inr False, ledger_s3)"
    using c by (simp add: cycle_refuses_below_floor)
  have e: "available_capital (close_trade ledger_s3 ''trade-1000'' ''ProfitTaken'' (513 / 512))
             = 45 / 10 \<and>
           allocated_capital (close_trade ledger_s3 ''trade-1000'' ''ProfitTaken'' (513 / 512))
             = [(''trade-2000'', 4), (''trade-3000'', 4)] \<and>
           map actual_profit
             (trade_history (close_trade ledger_s3 ''trade-1000'' ''ProfitTaken'' (513 / 512)))
             = [Some (5 / 10)]"
    by (simp add: ledger_release)
  from assms a b c d e show ?thesis by (simp add: cycle_refuses_below_floor)
qed

text \<open>
  Claim C4, witness: the state after the three trades has 0.00 available, below the floor.
\<close>

theorem ledger_scenario_witness:
  "available_capital ledger_s3 < 3 \<and>
   enh_execute_trading_cycle ledger_s3 (cycle_env ''4000'') = (Inr False, ledger_s3) \<and>
   available_capital ledger_s3 = 0 \<and>
   available_capital (close_trade ledger_s3 ''trade-1000'' ''ProfitTaken'' (513 / 512)) = 45 / 10"
proof -
  have h: "available_capital ledger_s3 < 3" by (simp add: ledger_s3_state)
  from ledger_scenario [OF h, of "cycle_env ''4000''"] h show ?thesis by blast
qed

text \<open>
  Claim C4, as stated, fails: with 0.00 available after the three trades, a reservation of
  a margin of 1.00 made with the ledger's reserve operation does not fail. It is accepted
  without a test and leaves \<^verbatim>\<open>available_capital\<close> at -1.00.
\<close>

theorem ledger_scenario_counterexample:
  "available_capital ledger_s3 = 0 \<and>
   update_capital_allocation ledger_s3 unit_margin_trade
     = Inr (ledger_s3\<lparr> available_capital := - 1,
              allocated_capital := [(''trade-1000'', 4), (''trade-2000'', 4), (''trade-3000'', 4),
                                    (''trade-4000'', 1)] \<rparr>)"
proof -
  have q: "decimal_div (dec_mul 64 1) 64 = Inr 1" "dec_sub 0 1 = - 1"
    by (simp_all add: decimal_div_def dec_eval)
  show ?thesis
    by (simp add: ledger_s3_state update_capital_allocation_def unit_margin_trade_def q)
qed

subsection \<open>Over-commitment\<close>

lemma oc_dec:
  "dec_mul 5 78 = 390"
  "dec_mul 390 (1 / 128) = 195 / 64"
  "dec_round (390 / 7) = 5571428571428571428571428571 / 100000000000000000000000000"
  "quantize4 (5571428571428571428571428571 / 100000000000000000000000000) = Inr (557143 / 10000)"
  "dec_mul (557143 / 10000) 7 = 3900001 / 10000"
  "dec_round (3900001 / 780000) = 2500000641025641025641025641 / 500000000000000000000000000"
  "dec_sub 5 (2500000641025641025641025641 / 500000000000000000000000000)
     = - (641025641025641025641 / 500000000000000000000000000)"
  by (simp_all add: quantize4_def dec_eval)

lemma overcommit_fields:
  "config overcommit_state = default_config" "available_capital overcommit_state = 5"
  "filtered_assets overcommit_state = [sample_asset]"
  "allocated_capital overcommit_state = [(''trade-3000'', 5)]"
  by (simp_all add: overcommit_state_def init_system_def)

lemma overcommit_signal_eq:
  "generate_trading_signal overcommit_state sample_asset = Inr overcommit_signal"
  by (simp add: generate_trading_signal_def overcommit_fields sample_asset_def
      overcommit_signal_def default_config_def py_int_def py_truediv_def oc_dec floor_rat_numeral
      Let_def)

lemma overcommit_select:
  "select_best_trading_opportunity overcommit_state = Inr (Some (sample_asset, overcommit_signal))"
  by (simp add: select_best_trading_opportunity_def overcommit_fields overcommit_signal_eq)
     (simp add: overcommit_signal_def py_truediv_def)

lemma overcommit_execute:
  "execute_trade overcommit_state sample_asset overcommit_signal (cycle_env ''4000'')
   = Inr overcommit_trade"
  by (simp add: execute_trade_def overcommit_fields overcommit_signal_def sample_asset_def
      cycle_env_def overcommit_trade_def decimal_div_def oc_dec Let_def)

lemma overcommit_update:
  "update_capital_allocation overcommit_state overcommit_trade
   = Inr (overcommit_state\<lparr> available_capital := - (1282051282051282051282 / 10 ^ 27),
            allocated_capital := [(''trade-3000'', 5),
              (''trade-4000'', 5000001282051282051282051282 / 10 ^ 27)] \<rparr>)"
  by (simp add: update_capital_allocation_def overcommit_trade_def overcommit_fields
      decimal_div_def oc_dec)

lemma overcommit_cycle:
  "fst (execute_trading_cycle overcommit_state (cycle_env ''4000'')) = Inr True \<and>
   dict_get (allocated_capital (snd (execute_trading_cycle overcommit_state (cycle_env ''4000''))))
       ''trade-4000'' = Some (5000001282051282051282051282 / 10 ^ 27) \<and>
   available_capital (snd (execute_trading_cycle overcommit_state (cycle_env ''4000'')))
       = - (1282051282051282051282 / 10 ^ 27)"
  by (simp add: execute_trading_cycle_def overcommit_fields overcommit_select overcommit_execute
      overcommit_update dict_get_def)

lemma overcommit_conserved: "conserved overcommit_state"
proof -
  have p: "calculate_pnl sample_trade (dec_mul (price sample_trade) (399 / 400)) = - 1"
    by (simp add: calculate_pnl_def sample_trade_def dec_eval)
  show ?thesis
    by (simp add: overcommit_state_def init_system_def default_config_def conserved_def
        dict_values_def realized_pnl_def closed_trade_def p)
qed

lemma cheap_dec:
  "dec_mul 4 65 = 260"
  "dec_mul 260 (39 / 4000) = 507 / 200"
  "dec_round (26000 / 11) = 590909090909090909090909091 / 250000000000000000000000"
  "quantize4 (590909090909090909090909091 / 250000000000000000000000) = Inr (5909091 / 2500)"
  "dec_mul (5909091 / 2500) (11 / 100) = 65000001 / 250000"
  "dec_round (65000001 / 16250000) = 2000000030769230769230769231 / 500000000000000000000000000"
  "dec_sub 12 (2000000030769230769230769231 / 500000000000000000000000000) = 3999999969230769230769230769 / 500000000000000000000000000"
  "dec_sub (3999999969230769230769230769 / 500000000000000000000000000) (2000000030769230769230769231 / 500000000000000000000000000) = 999999969230769230769230769 / 250000000000000000000000000"
  "dec_mul (999999969230769230769230769 / 250000000000000000000000000) 65 = 2599999919999999999999999999 / 10000000000000000000000000"
  "dec_mul (2599999919999999999999999999 / 10000000000000000000000000) (39 / 4000) = 2534999921999999999999999999 / 1000000000000000000000000000"
  "dec_round (236363629090909090909090909 / 100000000000000000000000) = 236363629090909090909090909 / 100000000000000000000000"
  "quantize4 (236363629090909090909090909 / 100000000000000000000000) = Inr (23636363 / 10000)"
  "dec_mul (23636363 / 10000) (11 / 100) = 259999993 / 1000000"
  "dec_round (259999993 / 65000000) = 999999973076923076923076923 / 250000000000000000000000000"
  "dec_sub (999999969230769230769230769 / 250000000000000000000000000) (999999973076923076923076923 / 250000000000000000000000000) = - (1923076923076923077 / 125000000000000000000000000)"
  by (simp_all add: quantize4_def dec_eval)

lemma cheap_cycle_1000:
  assumes "config s = default_config" and "filtered_assets s = [cheap_asset]"
    and "available_capital s = 12"
  shows "enh_execute_trading_cycle s (cycle_env ''1000'')
         = (Inr True,
            s\<lparr> trade_counter := trade_counter s + 1,
               available_capital := 3999999969230769230769230769 / 500000000000000000000000000,
               allocated_capital := dict_set (allocated_capital s) ''trade-1000'' (2000000030769230769230769231 / 500000000000000000000000000),
               active_trades := dict_set (active_trades s) ''trade-1000''
                                  (cheap_trade ''1000'' (5909091 / 2500) (507 / 200)) \<rparr>)"
proof -
  let ?sg = "\<lparr> sig_should_trade = True, sig_confidence = 13 / 16, sig_direction = ''Long'',
               sig_leverage = 65, sig_expected_profit = 507 / 200, sig_risk_score = 17 / 40 \<rparr>"
  have sg: "enh_generate_trading_signal s cheap_asset = Inr ?sg"
    by (simp add: enh_generate_trading_signal_def assms cheap_asset_def default_config_def
        py_int_def py_truediv_def cheap_dec floor_rat_numeral Let_def)
  have sel: "enh_select_best_trading_opportunity s = Inr (Some (cheap_asset, ?sg))"
    by (simp add: enh_select_best_trading_opportunity_def assms sg py_truediv_def)
  have ex: "enh_execute_trade s cheap_asset ?sg (cycle_env ''1000'')
            = Inr (cheap_trade ''1000'' (5909091 / 2500) (507 / 200))"
    by (simp add: enh_execute_trade_def assms cheap_asset_def cycle_env_def cheap_trade_def
        decimal_div_def cheap_dec Let_def)
  have tc: "decimal_div (dec_mul (5909091 / 2500) (11 / 100)) 65 = Inr (2000000030769230769230769231 / 500000000000000000000000000)"
    by (simp add: decimal_div_def cheap_dec)
  show ?thesis
    by (simp add: enh_execute_trading_cycle_def assms sel ex update_capital_allocation_def Let_def)
       (simp add: cheap_trade_def decimal_div_def assms cheap_dec)
qed

lemma cheap_cycle_2000:
  assumes "config s = default_config" and "filtered_assets s = [cheap_asset]"
    and "available_capital s = 3999999969230769230769230769 / 500000000000000000000000000"
  shows "enh_execute_trading_cycle s (cycle_env ''2000'')
         = (Inr True,
            s\<lparr> trade_counter := trade_counter s + 1,
               available_capital := 999999969230769230769230769 / 250000000000000000000000000,
               allocated_capital := dict_set (allocated_capital s) ''trade-2000'' (2000000030769230769230769231 / 500000000000000000000000000),
               active_trades := dict_set (active_trades s) ''trade-2000''
                                  (cheap_trade ''2000'' (5909091 / 2500) (507 / 200)) \<rparr>)"
proof -
  let ?sg = "\<lparr> sig_should_trade = True, sig_confidence = 13 / 16, sig_direction = ''Long'',
               sig_leverage = 65, sig_expected_profit = 507 / 200, sig_risk_score = 17 / 40 \<rparr>"
  have sg: "enh_generate_trading_signal s cheap_asset = Inr ?sg"
    by (simp add: enh_generate_trading_signal_def assms cheap_asset_def default_config_def
        py_int_def py_truediv_def cheap_dec floor_rat_numeral Let_def)
  have sel: "enh_select_best_trading_opportunity s = Inr (Some (cheap_asset, ?sg))"
    by (simp add: enh_select_best_trading_opportunity_def assms sg py_truediv_def)
  have ex: "enh_execute_trade s cheap_asset ?sg (cycle_env ''2000'')
            = Inr (cheap_trade ''2000'' (5909091 / 2500) (507 / 200))"
    by (simp add: enh_execute_trade_def assms cheap_asset_def cycle_env_def cheap_trade_def
        decimal_div_def cheap_dec Let_def)
  have tc: "decimal_div (dec_mul (5909091 / 2500) (11 / 100)) 65 = Inr (2000000030769230769230769231 / 500000000000000000000000000)"
    by (simp add: decimal_div_def cheap_dec)
  show ?thesis
    by (simp add: enh_execute_trading_cycle_def assms sel ex update_capital_allocation_def Let_def)
       (simp add: cheap_trade_def decimal_div_def assms cheap_dec)
qed

lemma cheap_cycle_3000:
  assumes "config s = default_config" and "filtered_assets s = [cheap_asset]"
    and "available_capital s = 999999969230769230769230769 / 250000000000000000000000000"
  shows "enh_execute_trading_cycle s (cycle_env ''3000'')
         = (Inr True,
            s\<lparr> trade_counter := trade_counter s + 1,
               available_capital := - (1923076923076923077 / 125000000000000000000000000),
               allocated_capital := dict_set (allocated_capital s) ''trade-3000'' (999999973076923076923076923 / 250000000000000000000000000),
               active_trades := dict_set (active_trades s) ''trade-3000''
                                  (cheap_trade ''3000'' (23636363 / 10000) (2534999921999999999999999999 / 1000000000000000000000000000)) \<rparr>)"
proof -
  let ?sg = "\<lparr> sig_should_trade = True, sig_confidence = 13 / 16, sig_direction = ''Long'',
               sig_leverage = 65, sig_expected_profit = 2534999921999999999999999999 / 1000000000000000000000000000, sig_risk_score = 17 / 40 \<rparr>"
  have sg: "enh_generate_trading_signal s cheap_asset = Inr ?sg"
    by (simp add: enh_generate_trading_signal_def assms cheap_asset_def default_config_def
        py_int_def py_truediv_def cheap_dec floor_rat_numeral Let_def)
  have sel: "enh_select_best_trading_opportunity s = Inr (Some (cheap_asset, ?sg))"
    by (simp add: enh_select_best_trading_opportunity_def assms sg py_truediv_def)
  have ex: "enh_execute_trade s cheap_asset ?sg (cycle_env ''3000'')
            = Inr (cheap_trade ''3000'' (23636363 / 10000) (2534999921999999999999999999 / 1000000000000000000000000000))"
    by (simp add: enh_execute_trade_def assms cheap_asset_def cycle_env_def cheap_trade_def
        decimal_div_def cheap_dec Let_def)
  have tc: "decimal_div (dec_mul (23636363 / 10000) (11 / 100)) 65 = Inr (999999973076923076923076923 / 250000000000000000000000000)"
    by (simp add: decimal_div_def cheap_dec)
  show ?thesis
    by (simp add: enh_execute_trading_cycle_def assms sel ex update_capital_allocation_def Let_def)
       (simp add: cheap_trade_def decimal_div_def assms cheap_dec)
qed

lemma startup_fields:
  "config startup_state = default_config" "filtered_assets startup_state = [cheap_asset]"
  "available_capital startup_state = 12"
  by (simp_all add: startup_state_def init_counted_system_def default_config_def)

lemma after_three_cycles_available:
  "available_capital after_three_cycles = - (1923076923076923077 / 125000000000000000000000000)"
  unfolding after_three_cycles_def
  by (subst cheap_cycle_1000, (simp add: startup_fields)+,
      subst cheap_cycle_2000, (simp add: startup_fields)+,
      subst cheap_cycle_3000, (simp add: startup_fields)+)

text \<open>
  Claim C2 fails on the code. In the first file, with exactly 5.00 available (and the
  ledger equation satisfied), the execution cycle opens a trade of quantity
  \<open>390 / 7\<close> rounded up to \<open>55.7143\<close>, whose margin \<open>55.7143 * 7 / 78\<close> is
  \<open>5.000001282051282051282051282 > 5\<close>, and \<^verbatim>\<open>available_capital\<close> becomes negative. In the
  second file, three execution cycles from the initial state on an instrument priced 0.11
  leave \<^verbatim>\<open>available_capital\<close> negative as well.
\<close>

theorem over_commitment_by_rounding:
  "conserved overcommit_state \<and> available_capital overcommit_state = 5 \<and>
   fst (execute_trading_cycle overcommit_state (cycle_env ''4000'')) = Inr True \<and>
   dict_get (allocated_capital (snd (execute_trading_cycle overcommit_state (cycle_env ''4000''))))
     ''trade-4000'' = Some (5000001282051282051282051282 / 10 ^ 27) \<and>
   available_capital (snd (execute_trading_cycle overcommit_state (cycle_env ''4000'')))
     = - (1282051282051282051282 / 10 ^ 27) \<and>
   available_capital (snd (execute_trading_cycle overcommit_state (cycle_env ''4000''))) < 0 \<and>
   available_capital startup_state = 12 \<and>
   available_capital after_three_cycles = - (15384615384615384616 / 10 ^ 27) \<and>
   available_capital after_three_cycles < 0"
  by (simp add: overcommit_conserved overcommit_fields overcommit_cycle startup_fields
      after_three_cycles_available)

end
